theory Spec2Isabelle
  imports Main
begin

section \<open>JavaScript numbers\<close>

text \<open>
  Every amount in the program is a JavaScript \<^verbatim>\<open>number\<close>, an IEEE-754 binary64 value.
  A finite double is an integer significand times a power of two, so \<open>Fin m e\<close> stands
  for \<open>m * 2^e\<close>; \<open>NaN\<close> and the two infinities are values of their own. Each arithmetic
  operation computes the exact dyadic (or rational) result and rounds it to 53 significant
  bits, ties to even, with gradual underflow below \<open>2^-1022\<close> and overflow to infinity at
  \<open>2^1024\<close>. The sign of zero is not represented: no operation of the program
  distinguishes \<open>-0\<close> from \<open>0\<close> (division by zero is guarded wherever it could occur).
\<close>

datatype jsnum = NaN | PInf | NInf | Fin int int

text \<open>Number of binary digits of a natural number.\<close>

fun bits :: "nat \<Rightarrow> nat" where
  "bits n = (if n = 0 then 0 else Suc (bits (n div 2)))"

text \<open>Drop the \<open>sh\<close> low bits of \<open>a \<ge> 0\<close>, rounding to nearest, ties to even.\<close>

definition round_half_even :: "int \<Rightarrow> nat \<Rightarrow> int" where
  "round_half_even a sh =
     (if sh = 0 then a
      else let q = a div 2 ^ sh; r = a mod 2 ^ sh; h = 2 ^ (sh - 1)
           in if r < h then q else if h < r then q + 1 else if even q then q else q + 1)"

text \<open>The double nearest to \<open>n * 2^k\<close>.\<close>

definition round_dy :: "int \<Rightarrow> int \<Rightarrow> jsnum" where
  "round_dy n k =
     (if n = 0 then Fin 0 0
      else let a = \<bar>n\<bar>;
               e0 = max (k + int (bits (nat a)) - 53) (- 1074);
               m0 = (if e0 \<le> k then a * 2 ^ nat (k - e0) else round_half_even a (nat (e0 - k)));
               m = (if m0 = 2 ^ 53 then 2 ^ 52 else m0);
               e = (if m0 = 2 ^ 53 then e0 + 1 else e0)
           in if 971 < e then (if 0 < n then PInf else NInf)
              else if m = 0 then Fin 0 0
              else Fin (if 0 < n then m else - m) e)"

text \<open>
  The double nearest to \<open>(n / d) * 2^k\<close> for \<open>d > 0\<close>: the quotient is computed to at
  least 55 bits and a sticky bit records a non-zero remainder.
\<close>

definition round_frac :: "int \<Rightarrow> int \<Rightarrow> int \<Rightarrow> jsnum" where
  "round_frac n d k =
     (let a = \<bar>n\<bar>;
          t = (55 + bits (nat d)) - bits (nat a);
          q = (a * 2 ^ t) div d;
          s = (if (a * 2 ^ t) mod d = 0 then 0 else 1);
          v = 2 * q + s
      in round_dy (if 0 \<le> n then v else - v) (k - int t - 1))"

text \<open>An integer literal of the source text.\<close>

definition num :: "int \<Rightarrow> jsnum" where
  "num n = round_dy n 0"

text \<open>Comparison of two dyadic values \<open>m1 * 2^e1 \<le> m2 * 2^e2\<close>.\<close>

definition dy_le :: "int \<Rightarrow> int \<Rightarrow> int \<Rightarrow> int \<Rightarrow> bool" where
  "dy_le m1 e1 m2 e2 =
     (let e = min e1 e2 in m1 * 2 ^ nat (e1 - e) \<le> m2 * 2 ^ nat (e2 - e))"

text \<open>\<^verbatim>\<open>a <= b\<close>; false when either side is NaN.\<close>

fun js_le :: "jsnum \<Rightarrow> jsnum \<Rightarrow> bool" where
  "js_le NaN _ = False"
| "js_le _ NaN = False"
| "js_le NInf _ = True"
| "js_le _ PInf = True"
| "js_le PInf _ = False"
| "js_le _ NInf = False"
| "js_le (Fin m1 e1) (Fin m2 e2) = dy_le m1 e1 m2 e2"

text \<open>\<^verbatim>\<open>a >= b\<close> is \<^verbatim>\<open>b <= a\<close>.\<close>

definition js_ge :: "jsnum \<Rightarrow> jsnum \<Rightarrow> bool" where
  "js_ge a b = js_le b a"

text \<open>\<^verbatim>\<open>a == b\<close> on numbers: NaN equals nothing, finite values compare by value.\<close>

definition js_eq :: "jsnum \<Rightarrow> jsnum \<Rightarrow> bool" where
  "js_eq a b = (js_le a b \<and> js_le b a)"

text \<open>\<^verbatim>\<open>a < b\<close>.\<close>

definition js_lt :: "jsnum \<Rightarrow> jsnum \<Rightarrow> bool" where
  "js_lt a b = (js_le a b \<and> \<not> js_le b a)"

fun js_neg :: "jsnum \<Rightarrow> jsnum" where
  "js_neg NaN = NaN"
| "js_neg PInf = NInf"
| "js_neg NInf = PInf"
| "js_neg (Fin m e) = Fin (- m) e"

text \<open>\<^verbatim>\<open>Math.abs\<close>.\<close>

fun js_abs :: "jsnum \<Rightarrow> jsnum" where
  "js_abs NaN = NaN"
| "js_abs PInf = PInf"
| "js_abs NInf = PInf"
| "js_abs (Fin m e) = Fin \<bar>m\<bar> e"

text \<open>\<^verbatim>\<open>a + b\<close>.\<close>

fun js_add :: "jsnum \<Rightarrow> jsnum \<Rightarrow> jsnum" where
  "js_add NaN _ = NaN"
| "js_add _ NaN = NaN"
| "js_add PInf NInf = NaN"
| "js_add NInf PInf = NaN"
| "js_add PInf _ = PInf"
| "js_add NInf _ = NInf"
| "js_add _ PInf = PInf"
| "js_add _ NInf = NInf"
| "js_add (Fin m1 e1) (Fin m2 e2) =
     (let e = min e1 e2 in round_dy (m1 * 2 ^ nat (e1 - e) + m2 * 2 ^ nat (e2 - e)) e)"

text \<open>\<^verbatim>\<open>a - b\<close>.\<close>

definition js_sub :: "jsnum \<Rightarrow> jsnum \<Rightarrow> jsnum" where
  "js_sub a b = js_add a (js_neg b)"

text \<open>Sign of a number as \<open>-1\<close>, \<open>0\<close>, \<open>1\<close>; only used on non-NaN values.\<close>

fun js_sign :: "jsnum \<Rightarrow> int" where
  "js_sign NaN = 0"
| "js_sign PInf = 1"
| "js_sign NInf = - 1"
| "js_sign (Fin m e) = sgn m"

definition inf_of_sign :: "int \<Rightarrow> jsnum" where
  "inf_of_sign s = (if s = 0 then NaN else if 0 < s then PInf else NInf)"

text \<open>\<^verbatim>\<open>a * b\<close>.\<close>

fun js_mul :: "jsnum \<Rightarrow> jsnum \<Rightarrow> jsnum" where
  "js_mul NaN _ = NaN"
| "js_mul _ NaN = NaN"
| "js_mul (Fin m1 e1) (Fin m2 e2) = round_dy (m1 * m2) (e1 + e2)"
| "js_mul a b = inf_of_sign (js_sign a * js_sign b)"

text \<open>\<^verbatim>\<open>a / b\<close>; a zero divisor is taken as \<open>+0\<close>.\<close>

fun js_div :: "jsnum \<Rightarrow> jsnum \<Rightarrow> jsnum" where
  "js_div NaN _ = NaN"
| "js_div _ NaN = NaN"
| "js_div (Fin m1 e1) (Fin m2 e2) =
     (if m2 = 0 then inf_of_sign (sgn m1)
      else round_frac (sgn m2 * m1) \<bar>m2\<bar> (e1 - e2))"
| "js_div (Fin m1 e1) _ = Fin 0 0"
| "js_div a (Fin m2 e2) = inf_of_sign (js_sign a * (if m2 < 0 then - 1 else 1))"
| "js_div _ _ = NaN"

text \<open>\<^verbatim>\<open>Math.min(a, b)\<close>.\<close>

fun js_min :: "jsnum \<Rightarrow> jsnum \<Rightarrow> jsnum" where
  "js_min NaN _ = NaN"
| "js_min _ NaN = NaN"
| "js_min a b = (if js_le a b then a else b)"

text \<open>A number is falsy when it is zero or NaN.\<close>

fun truthy :: "jsnum \<Rightarrow> bool" where
  "truthy NaN = False"
| "truthy (Fin m e) = (m \<noteq> 0)"
| "truthy _ = True"

text \<open>\<^verbatim>\<open>x || 0\<close> where \<open>x\<close> is a number or \<^verbatim>\<open>undefined\<close>.\<close>

fun or0 :: "jsnum option \<Rightarrow> jsnum" where
  "or0 None = Fin 0 0"
| "or0 (Some x) = (if truthy x then x else Fin 0 0)"

section \<open>Strings\<close>

text \<open>
  A string is a list of characters; the model covers text whose code units are below 256.
\<close>

text \<open>White space and line terminators, as \<^verbatim>\<open>String.prototype.trim\<close> and
  \<^verbatim>\<open>parseFloat\<close> skip them: TAB, LF, VT, FF, CR, SP, NBSP.\<close>

definition is_ws :: "char \<Rightarrow> bool" where
  "is_ws c = (of_char c \<in> {9, 10, 11, 12, 13, 32, 160 :: nat})"

definition trim :: "string \<Rightarrow> string" where
  "trim s = rev (dropWhile is_ws (rev (dropWhile is_ws s)))"

text \<open>\<^verbatim>\<open>s.split(c)\<close> for a one-character separator: never empty, \<^verbatim>\<open>"".split(c)\<close> is
  \<^verbatim>\<open>[""]\<close>.\<close>

fun split :: "char \<Rightarrow> string \<Rightarrow> string list" where
  "split c [] = [[]]"
| "split c (x # xs) =
     (if x = c then [] # split c xs
      else (case split c xs of [] \<Rightarrow> [[x]] | f # fs \<Rightarrow> (x # f) # fs))"

text \<open>\<^verbatim>\<open>toLowerCase\<close> on the Latin-1 range.\<close>

definition lower_char :: "char \<Rightarrow> char" where
  "lower_char c =
     (let n = (of_char c :: nat)
      in if (65 \<le> n \<and> n \<le> 90) \<or> (192 \<le> n \<and> n \<le> 222 \<and> n \<noteq> 215)
         then char_of (n + 32) else c)"

definition toLowerCase :: "string \<Rightarrow> string" where
  "toLowerCase s = map lower_char s"

definition is_digit :: "char \<Rightarrow> bool" where
  "is_digit c = (48 \<le> (of_char c :: nat) \<and> (of_char c :: nat) \<le> 57)"

definition digit_val :: "char \<Rightarrow> int" where
  "digit_val c = int (of_char c) - 48"

definition digits_val :: "string \<Rightarrow> int" where
  "digits_val ds = foldl (\<lambda>acc c. 10 * acc + digit_val c) 0 ds"

text \<open>\<^verbatim>\<open>array[i]\<close>: \<^verbatim>\<open>undefined\<close> past the end.\<close>

definition at :: "'a list \<Rightarrow> nat \<Rightarrow> 'a option" where
  "at xs i = (if i < length xs then Some (xs ! i) else None)"

subsection \<open>parseFloat\<close>

text \<open>
  The optional exponent part \<^verbatim>\<open>e[+-]digits\<close> of a decimal literal; it only counts
  when at least one digit follows.
\<close>

definition exponent_part :: "string \<Rightarrow> int" where
  "exponent_part s =
     (case s of
        [] \<Rightarrow> 0
      | c # r \<Rightarrow>
          if c = CHR ''e'' \<or> c = CHR ''E'' then
            (case r of
               [] \<Rightarrow> 0
             | d # r' \<Rightarrow>
                 if d = CHR ''+'' then
                   (if takeWhile is_digit r' = [] then 0 else digits_val (takeWhile is_digit r'))
                 else if d = CHR ''-'' then
                   (if takeWhile is_digit r' = [] then 0 else - digits_val (takeWhile is_digit r'))
                 else (if takeWhile is_digit r = [] then 0 else digits_val (takeWhile is_digit r)))
          else 0)"

text \<open>The value \<open>D * 10^x\<close> of a decimal literal, rounded to a double.\<close>

definition decimal :: "int \<Rightarrow> int \<Rightarrow> jsnum" where
  "decimal D x = (if 0 \<le> x then round_dy (D * 10 ^ nat x) 0 else round_frac D (10 ^ nat (- x)) 0)"

text \<open>
  An unsigned literal: \<^verbatim>\<open>Infinity\<close>, or digits with an optional fraction and exponent
  (\<^verbatim>\<open>12\<close>, \<^verbatim>\<open>12.\<close>, \<^verbatim>\<open>12.5\<close>, \<^verbatim>\<open>.5\<close>, each optionally followed by an exponent). The longest
  such prefix is read and the rest of the string is ignored; no prefix gives NaN.
\<close>

definition unsigned_literal :: "string \<Rightarrow> jsnum" where
  "unsigned_literal s =
     (if take 8 s = ''Infinity'' then PInf
      else let ip = takeWhile is_digit s;
               r1 = dropWhile is_digit s;
               fp = (case r1 of [] \<Rightarrow> [] | c # t \<Rightarrow> if c = CHR ''.'' then takeWhile is_digit t else []);
               r2 = (case r1 of [] \<Rightarrow> [] | c # t \<Rightarrow> if c = CHR ''.'' then dropWhile is_digit t else r1)
           in if ip = [] \<and> fp = [] then NaN
              else decimal (digits_val (ip @ fp)) (exponent_part r2 - int (length fp)))"

text \<open>\<^verbatim>\<open>parseFloat(s)\<close> for a string argument.\<close>

definition parseFloat :: "string \<Rightarrow> jsnum" where
  "parseFloat str =
     (case dropWhile is_ws str of
        [] \<Rightarrow> NaN
      | c # r \<Rightarrow>
          if c = CHR ''+'' then unsigned_literal r
          else if c = CHR ''-'' then js_neg (unsigned_literal r)
          else unsigned_literal (c # r))"

text \<open>\<^verbatim>\<open>parseFloat(values[2])\<close>: a missing field is \<^verbatim>\<open>undefined\<close>, whose string form
  has no numeric prefix.\<close>

definition parseFloat_opt :: "string option \<Rightarrow> jsnum" where
  "parseFloat_opt v = (case v of None \<Rightarrow> NaN | Some s \<Rightarrow> parseFloat s)"

section \<open>The sample-data import script\<close>

subsection \<open>mapCategory\<close>

text \<open>
  \<^verbatim>\<open>categoryMap[categoryName] || null\<close> looks the name up in an object literal. Besides
  the nineteen own properties the lookup also finds the members every object inherits
  from \<^verbatim>\<open>Object.prototype\<close>; those are objects, hence truthy, and are returned as they
  are. A missing name, and the missing column (\<^verbatim>\<open>undefined\<close>), give \<^verbatim>\<open>null\<close>.
\<close>

datatype category_value = CatId string | CatNull | CatInherited string

definition categoryMap :: "(string \<times> string) list" where
  "categoryMap =
     [(''Supermarkten'', ''cat_supermarkets''),
      (''Boodschappen'', ''cat_supermarkets''),
      (''Restaurants'', ''cat_restaurants''),
      (''Transport'', ''cat_transport''),
      (''Wonen'', ''cat_housing''),
      (''Vrije tijd'', ''cat_leisure''),
      (''Werk'', ''cat_work''),
      (''Zorg'', ''cat_health''),
      (''Belastingen'', ''cat_taxes''),
      (''Verzekeringen'', ''cat_insurance''),
      (''Kleding'', ''cat_clothing''),
      (''Electronica'', ''cat_electronics''),
      (''Huishouden'', ''cat_household''),
      (''Sport'', ''cat_sports''),
      (''Communicatie'', ''cat_communication''),
      (''Kinderen'', ''cat_children''),
      (''Auto'', ''cat_auto''),
      (''Banken'', ''cat_banks''),
      (''Bonus'', ''cat_bonus'')]"

definition object_prototype_names :: "string list" where
  "object_prototype_names =
     [''constructor'', ''hasOwnProperty'', ''isPrototypeOf'', ''propertyIsEnumerable'',
      ''toLocaleString'', ''toString'', ''valueOf'', ''__proto__'',
      ''__defineGetter__'', ''__defineSetter__'', ''__lookupGetter__'', ''__lookupSetter__'']"

definition mapCategory :: "string option \<Rightarrow> category_value" where
  "mapCategory categoryName =
     (case categoryName of
        None \<Rightarrow> CatNull
      | Some n \<Rightarrow>
          (case map_of categoryMap n of
             Some cid \<Rightarrow> CatId cid
           | None \<Rightarrow> if n \<in> set object_prototype_names then CatInherited n else CatNull))"

subsection \<open>parseCsvToTransactions\<close>

datatype transaction_type = Credit | Debit

text \<open>
  The identifier \<^verbatim>\<open>txn_${Date.now()}_${i}\<close> is kept as the pair of the clock reading and
  the line index; the two time stamps are the instants read by \<^verbatim>\<open>new Date()\<close>.
\<close>

record transaction =
  txn_id :: "nat \<times> nat"
  date :: string
  description :: "string option"
  amount :: jsnum
  transaction_type :: transaction_type
  category_id :: category_value
  account_number :: "string option"
  account_holder :: "string option"
  tags :: "string list"
  tx_notes :: string
  is_recurring :: bool
  created_at :: nat
  updated_at :: nat

text \<open>The three clock readings taken while line \<open>i\<close> is processed.\<close>

record clock =
  date_now :: "nat \<Rightarrow> nat"
  created_now :: "nat \<Rightarrow> nat"
  updated_now :: "nat \<Rightarrow> nat"

text \<open>\<^verbatim>\<open>values[3].toLowerCase()\<close> throws when the line has fewer than four fields.\<close>

datatype error = TypeError

definition parse_tags :: "string option \<Rightarrow> string list" where
  "parse_tags v = (case v of None \<Rightarrow> [] | Some s \<Rightarrow> if s = [] then [] else split CHR '';'' s)"

definition parse_line :: "clock \<Rightarrow> nat \<Rightarrow> string \<Rightarrow> error + transaction" where
  "parse_line clk i line =
     (let values = split CHR '','' line
      in case at values 3 of
           None \<Rightarrow> Inl TypeError
         | Some v3 \<Rightarrow>
             Inr \<lparr> txn_id = (date_now clk i, i),
                   date = values ! 0,
                   description = at values 1,
                   amount = parseFloat_opt (at values 2),
                   transaction_type = (if toLowerCase v3 = ''credit'' then Credit else Debit),
                   category_id = mapCategory (at values 4),
                   account_number = at values 5,
                   account_holder = at values 6,
                   tags = parse_tags (at values 7),
                   tx_notes = [],
                   is_recurring = False,
                   created_at = created_now clk i,
                   updated_at = updated_now clk i \<rparr>)"

text \<open>The loop over \<^verbatim>\<open>lines[i]\<close>, \<open>i \<ge> 1\<close>: blank lines are skipped, the first throwing
  line aborts the whole run.\<close>

fun parse_lines :: "clock \<Rightarrow> nat \<Rightarrow> string list \<Rightarrow> error + transaction list" where
  "parse_lines clk i [] = Inr []"
| "parse_lines clk i (l # ls) =
     (if trim l = [] then parse_lines clk (Suc i) ls
      else case parse_line clk i (trim l) of
             Inl e \<Rightarrow> Inl e
           | Inr t \<Rightarrow>
               (case parse_lines clk (Suc i) ls of
                  Inl e \<Rightarrow> Inl e
                | Inr ts \<Rightarrow> Inr (t # ts)))"

definition parseCsvToTransactions :: "clock \<Rightarrow> string \<Rightarrow> error + transaction list" where
  "parseCsvToTransactions clk csvContent =
     parse_lines clk 1 (drop 1 (split (CHR 0x0A) csvContent))"

subsection \<open>prepareData\<close>

text \<open>
  \<^verbatim>\<open>spendingByCategory\<close> is an object literal \<^verbatim>\<open>{}\<close> used as a dictionary, so a read
  \<^verbatim>\<open>spendingByCategory[k]\<close> follows the prototype chain. The values such a read can give
  are a number, a member inherited from \<^verbatim>\<open>Object.prototype\<close> (named by its property
  name), and the string that \<^verbatim>\<open>+\<close> builds from a value that is not a number and a
  number: \<open>Text v x\<close> stands for the text of \<open>v\<close> followed by the text of \<open>x\<close>. Only
  the facts that such a string is not empty and is not the text of a number are used.
\<close>

datatype js_value = Num jsnum | Inherited string | Text js_value jsnum

text \<open>\<^verbatim>\<open>obj[k]\<close>: the own property if there is one, else the inherited member, else
  \<^verbatim>\<open>undefined\<close>.\<close>

definition obj_get :: "(string \<rightharpoonup> js_value) \<Rightarrow> string \<Rightarrow> js_value option" where
  "obj_get m k =
     (case m k of
        Some v \<Rightarrow> Some v
      | None \<Rightarrow> if k \<in> set object_prototype_names then Some (Inherited k) else None)"

text \<open>\<^verbatim>\<open>obj[k] = v\<close> for a number or a string \<open>v\<close>: an own property is written, except that
  the setter of \<^verbatim>\<open>__proto__\<close> ignores a value that is not an object.\<close>

definition obj_set :: "(string \<rightharpoonup> js_value) \<Rightarrow> string \<Rightarrow> js_value \<Rightarrow> (string \<rightharpoonup> js_value)" where
  "obj_set m k v = (if k = ''__proto__'' then m else m(k \<mapsto> v))"

text \<open>\<^verbatim>\<open>x || 0\<close>: \<^verbatim>\<open>undefined\<close>, zero and NaN give 0; objects and non-empty strings are
  kept.\<close>

fun value_or0 :: "js_value option \<Rightarrow> js_value" where
  "value_or0 None = Num (Fin 0 0)"
| "value_or0 (Some (Num x)) = Num (or0 (Some x))"
| "value_or0 (Some v) = v"

text \<open>\<^verbatim>\<open>v + x\<close> for a number \<open>x\<close>: addition of numbers, else concatenation of strings.\<close>

fun value_add :: "js_value \<Rightarrow> jsnum \<Rightarrow> js_value" where
  "value_add (Num a) x = Num (js_add a x)"
| "value_add v x = Text v x"

text \<open>The number a value is converted to by \<^verbatim>\<open>-\<close>: a function, an object and a string
  that is not the text of a number all give NaN.\<close>

fun to_number :: "js_value \<Rightarrow> jsnum" where
  "to_number (Num a) = a"
| "to_number v = NaN"

text \<open>
  Property keys are strings. An inherited member used as a key is converted to its
  source text, which is no category identifier.
\<close>

definition property_key :: "category_value \<Rightarrow> string" where
  "property_key c =
     (case c of
        CatId s \<Rightarrow> s
      | CatNull \<Rightarrow> ''null''
      | CatInherited n \<Rightarrow>
          if n = ''__proto__'' then ''[object Object]''
          else ''function '' @ (if n = ''constructor'' then ''Object'' else n)
               @ ''() { [native code] }'')"

definition cat_truthy :: "category_value \<Rightarrow> bool" where
  "cat_truthy c = (case c of CatId s \<Rightarrow> s \<noteq> [] | CatNull \<Rightarrow> False | CatInherited n \<Rightarrow> True)"

text \<open>One step of \<^verbatim>\<open>transactions.forEach\<close> at lines 111 to 116.\<close>

definition spending_step ::
  "(string \<rightharpoonup> js_value) \<Rightarrow> transaction \<Rightarrow> (string \<rightharpoonup> js_value)" where
  "spending_step m tx =
     (if transaction_type tx = Debit \<and> cat_truthy (category_id tx)
      then obj_set m (property_key (category_id tx))
             (value_add (value_or0 (obj_get m (property_key (category_id tx))))
                (js_abs (amount tx)))
      else m)"

definition spendingByCategory :: "transaction list \<Rightarrow> (string \<rightharpoonup> js_value)" where
  "spendingByCategory txs = foldl spending_step Map.empty txs"

text \<open>
  A budget of the seed file, as far as the script reads or writes it; its other
  properties are carried along as they are. The \<^verbatim>\<open>category_id\<close> of a budget is missing,
  \<^verbatim>\<open>null\<close> or a string, and \<^verbatim>\<open>spent\<close> holds whatever the dictionary read gives.
\<close>

datatype json_category = Missing | JsonNull | CategoryId string

record seed_budget =
  seed_category_id :: json_category
  seed_amount :: jsnum
  seed_spent :: js_value
  seed_remaining :: jsnum
  seed_other :: "(string \<times> string) list"

text \<open>The seed file: its budgets, and everything else it holds, which the script
  passes through.\<close>

record 'o seedData =
  budgets :: "seed_budget list"
  other_seed :: 'o

text \<open>The property key that \<^verbatim>\<open>spendingByCategory[budget.category_id]\<close> reads.\<close>

definition budget_key :: "json_category \<Rightarrow> string" where
  "budget_key c =
     (case c of Missing \<Rightarrow> ''undefined'' | JsonNull \<Rightarrow> ''null'' | CategoryId s \<Rightarrow> s)"

text \<open>Lines 119 to 123: \<^verbatim>\<open>spent\<close> is the value read or 0, \<^verbatim>\<open>remaining\<close> is
  \<^verbatim>\<open>budget.amount - spent\<close>.\<close>

definition update_budget :: "(string \<rightharpoonup> js_value) \<Rightarrow> seed_budget \<Rightarrow> seed_budget" where
  "update_budget m budget =
     (let s = value_or0 (obj_get m (budget_key (seed_category_id budget)))
      in budget\<lparr> seed_spent := s,
                 seed_remaining := js_sub (seed_amount budget) (to_number s) \<rparr>)"

definition prepareData ::
  "bool \<Rightarrow> clock \<Rightarrow> string \<Rightarrow> 'o seedData \<Rightarrow> error + 'o seedData" where
  "prepareData importCsv clk csvContent seed =
     (if importCsv then
        (case parseCsvToTransactions clk csvContent of
           Inl e \<Rightarrow> Inl e
         | Inr transactions \<Rightarrow>
             Inr (seed\<lparr> budgets := map (update_budget (spendingByCategory transactions))
                                      (budgets seed) \<rparr>))
      else Inr seed)"

subsection \<open>exportData\<close>

text \<open>
  The output directory: \<^verbatim>\<open>writeFileSync\<close> replaces the file's content. With \<^verbatim>\<open>--json\<close>
  the prepared seed data is written, with \<^verbatim>\<open>--csv\<close> the file is parsed again and the
  transactions are written.
\<close>

record 'o output_dir =
  seed_data_json :: "'o seedData option"
  transactions_json :: "transaction list option"

definition exportData ::
  "bool \<Rightarrow> bool \<Rightarrow> clock \<Rightarrow> clock \<Rightarrow> string \<Rightarrow> 'o seedData \<Rightarrow> 'o output_dir
     \<Rightarrow> error + 'o output_dir" where
  "exportData importCsv importJson clk1 clk2 csvContent seed out =
     (case (if importJson then
              (case prepareData importCsv clk1 csvContent seed of
                 Inl e \<Rightarrow> Inl e
               | Inr sd \<Rightarrow> Inr (out\<lparr> seed_data_json := Some sd \<rparr>))
            else Inr out) of
        Inl e \<Rightarrow> Inl e
      | Inr out1 \<Rightarrow>
          if importCsv then
            (case parseCsvToTransactions clk2 csvContent of
               Inl e \<Rightarrow> Inl e
             | Inr transactions \<Rightarrow> Inr (out1\<lparr> transactions_json := Some transactions \<rparr>))
          else Inr out1)"

section \<open>The Budgets component\<close>

text \<open>The \<^verbatim>\<open>Budget\<close> interface of the front end.\<close>

datatype period = weekly | monthly | quarterly | yearly

record Budget =
  budget_id :: string
  budget_name :: string
  budget_category_id :: "string option"
  budget_amount :: jsnum
  budget_period :: period
  spent :: jsnum
  remaining :: jsnum
  is_active :: bool
  notification_threshold :: "jsnum option"
  start_date :: string
  end_date :: "string option"

subsection \<open>Progress and status of a budget card\<close>

definition getProgressPercentage :: "'a Budget_scheme \<Rightarrow> jsnum" where
  "getProgressPercentage budget =
     (if js_le (budget_amount budget) (num 0) then num 0
      else js_min (js_mul (js_div (spent budget) (budget_amount budget)) (num 100)) (num 100))"

datatype palette = error_main | warning_main | info_main | success_main

datatype status_icon = WarningIcon | TrendingUpIcon | TimelineIcon | CheckCircleIcon

text \<open>\<open>bgColor\<close> holds the palette colour that \<^verbatim>\<open>alpha(..., 0.1)\<close> is applied to.\<close>

record budget_status =
  color :: palette
  bgColor :: palette
  icon :: status_icon
  text_of :: string

definition getBudgetStatus :: "'a Budget_scheme \<Rightarrow> budget_status" where
  "getBudgetStatus budget =
     (let percentage = getProgressPercentage budget
      in if js_ge percentage (num 100) then
           \<lparr> color = error_main, bgColor = error_main, icon = WarningIcon,
             text_of = ''OverBudget'' \<rparr>
         else if js_ge percentage (num 80) then
           \<lparr> color = warning_main, bgColor = warning_main, icon = TrendingUpIcon,
             text_of = ''Waarschuwing'' \<rparr>
         else if js_ge percentage (num 50) then
           \<lparr> color = info_main, bgColor = info_main, icon = TimelineIcon,
             text_of = ''Op Goed Weg'' \<rparr>
         else
           \<lparr> color = success_main, bgColor = success_main, icon = CheckCircleIcon,
             text_of = ''Goed'' \<rparr>)"

text \<open>The amount shown as remaining on a card, line 360.\<close>

definition card_remaining :: "'a Budget_scheme \<Rightarrow> jsnum" where
  "card_remaining budget = js_sub (budget_amount budget) (spent budget)"

subsection \<open>Creating and updating a budget\<close>

record Category =
  cat_id :: string
  cat_name :: string
  cat_color :: string
  cat_icon :: string
  parent_id :: "string option"
  is_system :: bool

record BudgetWithCategory = Budget +
  category :: "Category option"

record BudgetFormData =
  form_name :: string
  form_category_id :: "string option"
  form_amount :: jsnum
  form_period :: period
  form_start_date :: string
  form_end_date :: "string option"
  form_is_active :: bool
  form_notification_threshold :: "jsnum option"

text \<open>The state the two handlers read and write; \<open>ui_error\<close> and \<open>ui_success\<close> are the
  component's \<^verbatim>\<open>error\<close> and \<^verbatim>\<open>success\<close> messages.\<close>

record budgets_state =
  st_budgets :: "BudgetWithCategory list"
  st_categories :: "Category list"
  isCreateDialogOpen :: bool
  isEditDialogOpen :: bool
  editingBudget :: "Budget option"
  formData :: BudgetFormData
  ui_error :: "string option"
  ui_success :: "string option"

text \<open>A call of the backend either resolves to a budget or rejects.\<close>

datatype api_failure = Rejected

text \<open>\<open>today\<close> is \<^verbatim>\<open>new Date().toISOString().split('T')[0]\<close>.\<close>

definition resetFormData :: "string \<Rightarrow> BudgetFormData" where
  "resetFormData today =
     \<lparr> form_name = [], form_category_id = None, form_amount = num 0, form_period = monthly,
       form_start_date = today, form_end_date = None, form_is_active = True,
       form_notification_threshold = None \<rparr>"

text \<open>The amount field's \<^verbatim>\<open>onChange\<close>: \<^verbatim>\<open>parseFloat(e.target.value) || 0\<close>.\<close>

definition onChange_amount :: "string \<Rightarrow> budgets_state \<Rightarrow> budgets_state" where
  "onChange_amount txt s =
     s\<lparr> formData := (formData s)\<lparr> form_amount := or0 (Some (parseFloat txt)) \<rparr> \<rparr>"

text \<open>\<^verbatim>\<open>categories.find(cat => cat.id === formData.category_id)\<close>.\<close>

definition find_category :: "Category list \<Rightarrow> string option \<Rightarrow> Category option" where
  "find_category cats cid =
     (case cid of None \<Rightarrow> None | Some c \<Rightarrow> find (\<lambda>cat. cat_id cat = c) cats)"

definition with_category :: "Budget \<Rightarrow> Category option \<Rightarrow> BudgetWithCategory" where
  "with_category b c = Budget.extend b \<lparr> category = c \<rparr>"

definition handleCreateBudget ::
  "(BudgetFormData \<Rightarrow> api_failure + Budget) \<Rightarrow> string \<Rightarrow> budgets_state \<Rightarrow> budgets_state" where
  "handleCreateBudget create today s =
     (if trim (form_name (formData s)) = [] \<or> js_le (form_amount (formData s)) (num 0) then
        s\<lparr> ui_error := Some ''Budget naam en bedrag zijn verplicht'' \<rparr>
      else
        (case create (formData s) of
           Inl e \<Rightarrow> s\<lparr> ui_error := Some ''Budget aanmaken mislukt'' \<rparr>
         | Inr newBudget \<Rightarrow>
             s\<lparr> st_budgets := st_budgets s @
                    [with_category newBudget
                       (find_category (st_categories s) (form_category_id (formData s)))],
                isCreateDialogOpen := False,
                formData := resetFormData today,
                ui_success := Some ''Budget succesvol aangemaakt'' \<rparr>))"

definition handleUpdateBudget ::
  "(string \<Rightarrow> BudgetFormData \<Rightarrow> api_failure + Budget) \<Rightarrow> string \<Rightarrow> budgets_state
     \<Rightarrow> budgets_state" where
  "handleUpdateBudget update today s =
     (case editingBudget s of
        None \<Rightarrow> s\<lparr> ui_error := Some ''Budget naam en bedrag zijn verplicht'' \<rparr>
      | Some eb \<Rightarrow>
          if trim (form_name (formData s)) = [] \<or> js_le (form_amount (formData s)) (num 0) then
            s\<lparr> ui_error := Some ''Budget naam en bedrag zijn verplicht'' \<rparr>
          else
            (case update (budget_id eb) (formData s) of
               Inl e \<Rightarrow> s\<lparr> ui_error := Some ''Budget bijwerken mislukt'' \<rparr>
             | Inr updatedBudget \<Rightarrow>
                 s\<lparr> st_budgets :=
                        map (\<lambda>budget.
                               if budget_id budget = budget_id eb
                               then with_category updatedBudget
                                      (find_category (st_categories s)
                                         (form_category_id (formData s)))
                               else budget)
                            (st_budgets s),
                    isEditDialogOpen := False,
                    editingBudget := None,
                    formData := resetFormData today,
                    ui_success := Some ''Budget succesvol bijgewerkt'' \<rparr>))"

section \<open>The import result\<close>

text \<open>
  The result of an import as the front end has it. The interface \<^verbatim>\<open>CsvImportResult\<close>
  declares \<^verbatim>\<open>success\<close>, \<^verbatim>\<open>transactions\<close>, \<^verbatim>\<open>errors\<close>, \<^verbatim>\<open>warnings\<close>, \<^verbatim>\<open>total_rows\<close> and
  \<^verbatim>\<open>imported_rows\<close>; errors and warnings are plain strings. The object literals that the
  fallback layer returns under that type hold \<^verbatim>\<open>success\<close> and \<^verbatim>\<open>errors\<close> and, instead of
  the other declared properties, \<^verbatim>\<open>imported_count\<close>, \<^verbatim>\<open>duplicate_count\<close> and
  \<^verbatim>\<open>total_processed\<close>. The record has all of them; a property an object lacks is \<open>None\<close>.
\<close>

record 't CsvImportResult =
  success :: bool
  transactions :: "'t list option"
  errors :: "string list"
  warnings :: "string list option"
  total_rows :: "jsnum option"
  imported_rows :: "jsnum option"
  imported_count :: "jsnum option"
  duplicate_count :: "jsnum option"
  total_processed :: "jsnum option"

text \<open>The interface \<^verbatim>\<open>ImportResult\<close>, declared beside it and used nowhere.\<close>

record 't ImportResult =
  ir_success :: bool
  ir_imported :: jsnum
  ir_skipped :: jsnum
  ir_errors :: "string list"
  ir_transactions :: "'t list"

text \<open>The literal returned at three places of the fallback layer.\<close>

definition mock_import_result :: "'t CsvImportResult" where
  "mock_import_result =
     \<lparr> success = True, transactions = None, errors = [], warnings = None, total_rows = None,
       imported_rows = None, imported_count = Some (num 15), duplicate_count = Some (num 2),
       total_processed = Some (num 17) \<rparr>"


text \<open>
  \<^verbatim>\<open>appApi.importCsv\<close>. \<open>useMockData\<close> is the mock switch, \<open>selected\<close> what the file dialog
  gives (a failure, nothing, or a path), and \<open>invoke\<close> the call of the backend command
  \<^verbatim>\<open>import_csv\<close>, which is not among the sources and whose result is passed through. A
  failing dialog, no selection and a failing backend call all end in the \<^verbatim>\<open>catch\<close>.
\<close>

definition importCsv ::
  "bool \<Rightarrow> api_failure + string option \<Rightarrow> (string \<Rightarrow> api_failure + 't CsvImportResult)
     \<Rightarrow> 't CsvImportResult" where
  "importCsv useMockData selected invoke =
     (if useMockData then mock_import_result
      else (case selected of
              Inl e \<Rightarrow> mock_import_result
            | Inr None \<Rightarrow> mock_import_result
            | Inr (Some filePath) \<Rightarrow>
                if filePath = [] then mock_import_result
                else (case invoke filePath of
                        Inl e \<Rightarrow> mock_import_result
                      | Inr result \<Rightarrow> result)))"

section \<open>Notions used in the statements\<close>

text \<open>The lines of a file that the loop turns into transactions: every line after the
  header, trimmed, that is not blank.\<close>

definition data_lines :: "string \<Rightarrow> string list" where
  "data_lines csvContent =
     filter (\<lambda>l. l \<noteq> []) (map trim (drop 1 (split (CHR 0x0A) csvContent)))"

text \<open>The transaction a later run gives for the same line: the same fields, with the
  clock readings of that run in the identifier and the time stamps.\<close>

definition restamp :: "clock \<Rightarrow> transaction \<Rightarrow> transaction" where
  "restamp clk t =
     t\<lparr> txn_id := (date_now clk (snd (txn_id t)), snd (txn_id t)),
        created_at := created_now clk (snd (txn_id t)),
        updated_at := updated_now clk (snd (txn_id t)) \<rparr>"

text \<open>A number that is neither NaN nor below zero.\<close>

definition nonneg :: "jsnum \<Rightarrow> bool" where
  "nonneg x = js_le (Fin 0 0) x"

text \<open>
  The spent figure in the words of the specification (section 4.4), to be compared with
  what \<open>prepareData\<close> computes: the sum of \<open>abs(amount)\<close> over the debit transactions
  whose category is the budget's category (over all of them when the budget has none) and
  whose date lies in the budget's current period; \<open>in_period\<close> is that test on the date.
\<close>

definition spec_spent :: "(string \<Rightarrow> bool) \<Rightarrow> seed_budget \<Rightarrow> transaction list \<Rightarrow> jsnum" where
  "spec_spent in_period budget txs =
     foldl js_add (num 0)
       (map (\<lambda>t. js_abs (amount t))
          (filter (\<lambda>t. (case seed_category_id budget of
                           CategoryId c \<Rightarrow> category_id t = CatId c
                         | _ \<Rightarrow> True)
                        \<and> in_period (date t)
                        \<and> transaction_type t = Debit) txs))"

section \<open>Example data\<close>

text \<open>A budget shaped like the entries of the mock data, with the three figures the
  status depends on left open.\<close>

definition example_budget :: "jsnum \<Rightarrow> jsnum \<Rightarrow> jsnum option \<Rightarrow> Budget" where
  "example_budget a s t =
     \<lparr> budget_id = ''bud-4'', budget_name = ''Utilities'', budget_category_id = Some ''cat-3'',
       budget_amount = a, budget_period = monthly, spent = s, remaining = js_sub a s,
       is_active = True, notification_threshold = t, start_date = ''2024-01-01'',
       end_date = Some ''2024-01-31'' \<rparr>"

text \<open>A state of the Budgets component with both dialogs open and a form holding the
  amount \<open>a\<close>.\<close>

definition example_state :: "jsnum \<Rightarrow> budgets_state" where
  "example_state a =
     \<lparr> st_budgets = [with_category (example_budget (num 300) (num 255) None) None],
       st_categories = [],
       isCreateDialogOpen = True,
       isEditDialogOpen = True,
       editingBudget = Some (example_budget (num 300) (num 255) None),
       formData = (resetFormData ''2024-01-01'')\<lparr> form_name := ''Utilities'', form_amount := a \<rparr>,
       ui_error = None,
       ui_success = None \<rparr>"

text \<open>A clock whose readings start at \<open>t0\<close> and advance by one millisecond per line.\<close>

definition example_clock :: "nat \<Rightarrow> clock" where
  "example_clock t0 =
     \<lparr> date_now = (\<lambda>i. t0 + i), created_now = (\<lambda>i. t0 + i), updated_now = (\<lambda>i. t0 + i) \<rparr>"

text \<open>A file with the header of the sample data and the given rows, each line ended by a
  line feed.\<close>

definition csv_file :: "string list \<Rightarrow> string" where
  "csv_file rows =
     concat (map (\<lambda>r. r @ [CHR 0x0A])
               (''Datum,Omschrijving,Bedrag,Type,Categorie,Rekening,Naam,Tags'' # rows))"

text \<open>A salary marked \<^verbatim>\<open>Bij\<close>, and a refund marked \<^verbatim>\<open>credit\<close> with a negative amount.\<close>

definition direction_csv :: string where
  "direction_csv =
     csv_file [''01-09-2024,Salaris,2800.00,Bij,Werk'',
               ''02-09-2024,Terugbetaling,-50.00,credit,Bonus'']"

text \<open>Two rows in the European format of the bank export: a decimal comma, and a dot as
  thousands separator.\<close>

definition european_csv :: string where
  "european_csv =
     csv_file [''15-01-2024,Albert Heijn,87,45,Af'', ''01-02-2024,Huur,1.234,56,Af'']"

text \<open>A row whose category is not in the table.\<close>

definition fallback_csv :: string where
  "fallback_csv =
     csv_file [''03-09-2024,Kapper,-25.00,debit,Overig,NL91ABNA0417164300,J. Jansen,'']"

text \<open>A file with a single purchase, an empty seed file and an empty output directory.\<close>

definition single_row_csv :: string where
  "single_row_csv =
     csv_file [''15-01-2024,Albert Heijn,-87.45,debit,Supermarkten,NL91ABNA0417164300,J. Jansen,boodschappen'']"

definition empty_seed :: "unit seedData" where
  "empty_seed = \<lparr> budgets = [], other_seed = () \<rparr>"

definition empty_output :: "unit output_dir" where
  "empty_output = \<lparr> seed_data_json = None, transactions_json = None \<rparr>"

text \<open>A budget of the seed file with nothing spent yet.\<close>

definition example_seed_budget :: "json_category \<Rightarrow> jsnum \<Rightarrow> seed_budget" where
  "example_seed_budget c a =
     \<lparr> seed_category_id = c, seed_amount = a, seed_spent = Num (num 0), seed_remaining = a,
       seed_other = [(''period'', ''monthly''), (''start_date'', ''2024-01-01'')] \<rparr>"

text \<open>One purchase of 6.65 in the supermarket category, against a supermarket budget of
  30.01 and a budget whose category is named \<^verbatim>\<open>toString\<close>.\<close>

definition rounding_csv :: string where
  "rounding_csv = csv_file [''05-01-2024,Jumbo,6.65,debit,Supermarkten'']"

definition rounding_seed :: "unit seedData" where
  "rounding_seed =
     \<lparr> budgets = [example_seed_budget (CategoryId ''cat_supermarkets'') (parseFloat ''30.01''),
                  example_seed_budget (CategoryId ''toString'') (num 100)],
       other_seed = () \<rparr>"

text \<open>Two supermarket purchases, one dated January 2024 and one dated May 2023, and two
  monthly budgets that start on 1 January 2024: an overall budget without category and a
  supermarket budget. January 2024 is the current period of both.\<close>

definition period_csv :: string where
  "period_csv =
     csv_file [''15-01-2024,Jumbo,20.00,debit,Supermarkten'',
               ''01-05-2023,Jumbo,50.00,debit,Supermarkten'']"

definition period_seed :: "unit seedData" where
  "period_seed =
     \<lparr> budgets = [example_seed_budget Missing (num 2000),
                  example_seed_budget (CategoryId ''cat_supermarkets'') (num 400)],
       other_seed = () \<rparr>"


section \<open>Evaluating numbers\<close>

lemma bits_0: "bits 0 = 0"
  by simp

lemma bits_Suc_0: "bits (Suc 0) = Suc 0"
  by simp

lemma bits_Bit0: "bits (numeral (Num.Bit0 k)) = Suc (bits (numeral k))"
  by (subst bits.simps) (simp add: numeral_Bit0_div_2)

lemma bits_Bit1: "bits (numeral (Num.Bit1 k)) = Suc (bits (numeral k))"
  by (subst bits.simps) (simp add: numeral_Bit1_div_2)

declare bits.simps [simp del]

lemmas round_eval = bits_0 bits_Suc_0 bits_Bit0 bits_Bit1 round_dy_def round_frac_def
  round_half_even_def num_def decimal_def dy_le_def Let_def

lemmas parse_eval = parseFloat_def parseFloat_opt_def unsigned_literal_def exponent_part_def
  is_ws_def is_digit_def digits_val_def digit_val_def

lemma num_0: "num 0 = Fin 0 0"
  by (simp add: num_def round_dy_def)

lemma num_100: "num 100 = Fin 7036874417766400 (- 46)"
  by (simp add: round_eval)

lemma num_80: "num 80 = Fin 5629499534213120 (- 46)"
  by (simp add: round_eval)

lemma num_50: "num 50 = Fin 7036874417766400 (- 47)"
  by (simp add: round_eval)

lemma js_lt_min: "b \<noteq> NaN \<Longrightarrow> \<not> js_lt b (js_min a b)"
  by (cases a; cases b) (auto simp: js_lt_def)

section \<open>Progress percentage\<close>

text \<open>
  Claim C10. The progress percentage is total and clamped: it is 0 when the budget's
  amount is not positive, so that the division is only evaluated with a divisor that is
  not \<open>\<le> 0\<close>, and otherwise it is \<^verbatim>\<open>Math.min((spent / amount) * 100, 100)\<close>; in both
  cases the result is never greater than 100.
\<close>

theorem getProgressPercentage_total_clamped:
  "getProgressPercentage budget =
     (if js_le (budget_amount budget) (num 0) then num 0
      else js_min (js_mul (js_div (spent budget) (budget_amount budget)) (num 100)) (num 100))
   \<and> \<not> js_lt (num 100) (getProgressPercentage budget)"
proof
  show "getProgressPercentage budget =
     (if js_le (budget_amount budget) (num 0) then num 0
      else js_min (js_mul (js_div (spent budget) (budget_amount budget)) (num 100)) (num 100))"
    by (simp add: getProgressPercentage_def)
next
  have "\<not> js_lt (num 100) (num 0)"
    by (simp add: num_0 num_100 js_lt_def dy_le_def)
  moreover have "\<not> js_lt (num 100) (js_min x (num 100))" for x
    by (rule js_lt_min) (simp add: num_100)
  ultimately show "\<not> js_lt (num 100) (getProgressPercentage budget)"
    by (simp add: getProgressPercentage_def)
qed

theorem getProgressPercentage_total_clamped_witness:
  "getProgressPercentage (example_budget (num 200) (num 500) None) = num 100
   \<and> getProgressPercentage (example_budget (num 0) (num 500) None) = num 0
   \<and> \<not> js_lt (num 100) (getProgressPercentage (example_budget (num 200) (num 500) None))"
proof -
  have a: "getProgressPercentage (example_budget (num 200) (num 500) None) = num 100"
    by (simp add: getProgressPercentage_def example_budget_def round_eval)
  have b: "getProgressPercentage (example_budget (num 0) (num 500) None) = num 0"
    by (simp add: getProgressPercentage_def example_budget_def round_eval)
  from getProgressPercentage_total_clamped [of "example_budget (num 200) (num 500) None"]
  have c: "\<not> js_lt (num 100) (getProgressPercentage (example_budget (num 200) (num 500) None))"
    by (rule conjunct2)
  from a b c show ?thesis by blast
qed

section \<open>Budget status\<close>

lemma pct_255_300:
  "getProgressPercentage (example_budget (num 300) (num 255) t) = Fin 5981343255101440 (- 46)"
  by (simp add: getProgressPercentage_def example_budget_def round_eval)

text \<open>
  Claim C3, as stated, fails: a budget of 300 with 255 spent and a notification threshold
  of 0.95 is shown in the warning state although \<open>spent / amount\<close> is 0.85, below its
  threshold.
\<close>

theorem budget_status_threshold_counterexample:
  "text_of (getBudgetStatus (example_budget (num 300) (num 255) (Some (decimal 95 (- 2)))))
     = ''Waarschuwing''
   \<and> \<not> js_ge (js_div (num 255) (num 300)) (decimal 95 (- 2))"
proof
  show "text_of (getBudgetStatus (example_budget (num 300) (num 255) (Some (decimal 95 (- 2)))))
     = ''Waarschuwing''"
    by (simp add: getBudgetStatus_def pct_255_300 js_ge_def num_80 num_100 dy_le_def Let_def)
next
  show "\<not> js_ge (js_div (num 255) (num 300)) (decimal 95 (- 2))"
    by (simp add: js_ge_def round_eval)
qed

text \<open>
  Claim C3, amended. The status of a budget is recomputed from \<open>spent\<close> and \<open>amount\<close>
  alone and does not depend on the budget's notification threshold: it is the warning
  state exactly when the progress percentage is at least 80 and below 100, and the
  over-budget state exactly when the percentage is at least 100.
\<close>

theorem budget_status_fixed_thresholds:
  "getBudgetStatus (budget\<lparr> notification_threshold := t \<rparr>) = getBudgetStatus budget
   \<and> (text_of (getBudgetStatus budget) = ''Waarschuwing'' \<longleftrightarrow>
        js_ge (getProgressPercentage budget) (num 80)
        \<and> \<not> js_ge (getProgressPercentage budget) (num 100))
   \<and> (text_of (getBudgetStatus budget) = ''OverBudget'' \<longleftrightarrow>
        js_ge (getProgressPercentage budget) (num 100))"
  by (simp add: getBudgetStatus_def getProgressPercentage_def Let_def)

theorem budget_status_fixed_thresholds_witness:
  "text_of (getBudgetStatus (example_budget (num 300) (num 255) (Some (decimal 95 (- 2)))))
     = ''Waarschuwing''
   \<and> getBudgetStatus
        ((example_budget (num 300) (num 255) None)\<lparr> notification_threshold := Some (num 1) \<rparr>)
     = getBudgetStatus (example_budget (num 300) (num 255) None)"
  using
    budget_status_fixed_thresholds
      [where budget = "example_budget (num 300) (num 255) (Some (decimal 95 (- 2)))" and t = None]
    budget_status_fixed_thresholds
      [where budget = "example_budget (num 300) (num 255) None" and t = "Some (num 1)"]
  by (simp add: pct_255_300 js_ge_def num_80 num_100 dy_le_def)

section \<open>Validation of the budget form\<close>

text \<open>
  Claim C9. When the form's amount is \<open>\<le> 0\<close>, creating and updating a budget are both
  rejected with the validation message; the backend is not called and the state is
  unchanged apart from that message, so no budget is added or modified. The amount the
  form holds after an edit of its amount field is never NaN, so the comparison decides.
\<close>

theorem budget_amount_validation:
  assumes "js_le (form_amount (formData s)) (num 0)"
  shows "handleCreateBudget create today s =
           s\<lparr> ui_error := Some ''Budget naam en bedrag zijn verplicht'' \<rparr>
         \<and> handleUpdateBudget update today s =
           s\<lparr> ui_error := Some ''Budget naam en bedrag zijn verplicht'' \<rparr>
         \<and> st_budgets (handleCreateBudget create today s) = st_budgets s
         \<and> st_budgets (handleUpdateBudget update today s) = st_budgets s
         \<and> form_amount (formData (onChange_amount txt s)) \<noteq> NaN"
proof -
  have "or0 (Some x) \<noteq> NaN" for x
    by (cases x) simp_all
  with assms show ?thesis
    by (simp add: handleCreateBudget_def handleUpdateBudget_def onChange_amount_def
        split: option.splits)
qed

theorem budget_amount_validation_witness:
  "js_le (form_amount (formData (example_state (num (- 5))))) (num 0)
   \<and> handleCreateBudget (\<lambda>fd. Inr (example_budget (form_amount fd) (num 0) None)) ''2024-02-01''
        (example_state (num (- 5)))
      = (example_state (num (- 5)))\<lparr> ui_error := Some ''Budget naam en bedrag zijn verplicht'' \<rparr>
   \<and> st_budgets (handleUpdateBudget (\<lambda>i fd. Inr (example_budget (form_amount fd) (num 0) None))
        ''2024-02-01'' (example_state (num (- 5))))
      = [with_category (example_budget (num 300) (num 255) None) None]"
proof -
  have h: "js_le (form_amount (formData (example_state (num (- 5))))) (num 0)"
    by (simp add: example_state_def resetFormData_def round_eval)
  show ?thesis
    using h budget_amount_validation [OF h,
      of "\<lambda>fd. Inr (example_budget (form_amount fd) (num 0) None)" "''2024-02-01''"
         "\<lambda>i fd. Inr (example_budget (form_amount fd) (num 0) None)" "''-5''"]
    by (simp add: example_state_def)
qed

section \<open>Rows and transactions\<close>

lemmas line_eval = parse_line_def at_def parse_tags_def toLowerCase_def lower_char_def
  mapCategory_def categoryMap_def object_prototype_names_def

lemma parse_line_restamp:
  "parse_line clk' i line = map_sum id (restamp clk') (parse_line clk i line)"
  by (simp add: parse_line_def restamp_def Let_def split: option.splits)

lemma parse_lines_restamp:
  "parse_lines clk' i ls = map_sum id (map (restamp clk')) (parse_lines clk i ls)"
proof (induction ls arbitrary: i)
  case Nil
  then show ?case by simp
next
  case (Cons l ls)
  show ?case
  proof (cases "trim l = []")
    case True
    then show ?thesis using Cons.IH by simp
  next
    case False
    then show ?thesis
      using Cons.IH [of "Suc i"] parse_line_restamp [of clk' i "trim l" clk]
      by (cases "parse_line clk i (trim l)"; cases "parse_lines clk (Suc i) ls") simp_all
  qed
qed

lemma parse_lines_rows:
  "parse_lines clk i ls = Inr ts \<Longrightarrow>
   list_all2 (\<lambda>line t. \<exists>j. parse_line clk j line = Inr t) (filter (\<lambda>l. l \<noteq> []) (map trim ls)) ts"
proof (induction ls arbitrary: i ts)
  case Nil
  then show ?case by simp
next
  case (Cons l ls)
  show ?case
  proof (cases "trim l = []")
    case True
    then show ?thesis using Cons by simp
  next
    case False
    then show ?thesis
      using Cons.prems Cons.IH [of "Suc i"]
      by (auto split: sum.splits)
  qed
qed

lemma parse_rows:
  "parseCsvToTransactions clk csvContent = Inr ts \<Longrightarrow>
   list_all2 (\<lambda>line t. \<exists>j. parse_line clk j line = Inr t) (data_lines csvContent) ts"
  unfolding parseCsvToTransactions_def data_lines_def by (rule parse_lines_rows)

lemma parse_line_fields:
  assumes "parse_line clk j line = Inr t"
  shows "\<exists>v3. at (split CHR '','' line) 3 = Some v3
           \<and> transaction_type t = (if toLowerCase v3 = ''credit'' then Credit else Debit)"
    and "amount t = parseFloat_opt (at (split CHR '','' line) 2)"
    and "category_id t = mapCategory (at (split CHR '','' line) 4)"
  using assms by (auto simp: parse_line_def Let_def split: option.splits)

lemmas file_eval = parseCsvToTransactions_def csv_file_def trim_def

lemma direction_csv_parsed:
  "map_sum id (map (\<lambda>t. (transaction_type t, amount t))) (parseCsvToTransactions clk direction_csv)
     = Inr [(Debit, Fin 6157265115545600 (- 41)), (Credit, Fin (- 7036874417766400) (- 47))]"
  by (simp add: direction_csv_def file_eval line_eval parse_eval round_eval)

section \<open>Direction and sign\<close>

text \<open>
  Claim C7, as stated, fails: a row with the positive amount 2800.00 and the direction
  \<^verbatim>\<open>Bij\<close> becomes a debit, and a row with the negative amount -50.00 and the direction
  \<^verbatim>\<open>credit\<close> becomes a credit whose amount stays negative.
\<close>

theorem direction_counterexample:
  "map_sum id (map (\<lambda>t. (transaction_type t, js_lt (amount t) (num 0))))
     (parseCsvToTransactions (example_clock 0) direction_csv)
     = Inr [(Debit, False), (Credit, True)]"
proof -
  have "map_sum id (map (\<lambda>t. (transaction_type t, js_lt (amount t) (num 0))))
          (parseCsvToTransactions (example_clock 0) direction_csv)
        = map_sum id (map (\<lambda>p. (fst p, js_lt (snd p) (num 0))))
            (map_sum id (map (\<lambda>t. (transaction_type t, amount t)))
               (parseCsvToTransactions (example_clock 0) direction_csv))"
    by (cases "parseCsvToTransactions (example_clock 0) direction_csv") (simp_all add: comp_def)
  then show ?thesis
    by (simp add: direction_csv_parsed js_lt_def num_0 dy_le_def)
qed

text \<open>
  Claim C7, amended. For every parsed transaction the type is credit exactly when the
  fourth field of its line, in lower case, is \<^verbatim>\<open>credit\<close>, and debit for every other
  value; the sign of the amount plays no part, and the amount is stored as parsed from
  the third field, never re-signed.
\<close>

theorem transaction_type_from_direction_column:
  assumes "parseCsvToTransactions clk csvContent = Inr ts"
  shows "list_all2
           (\<lambda>line t.
              (transaction_type t = Credit \<longleftrightarrow>
                 map_option toLowerCase (at (split CHR '','' line) 3) = Some ''credit'')
              \<and> (transaction_type t = Debit \<longleftrightarrow>
                 map_option toLowerCase (at (split CHR '','' line) 3) \<noteq> Some ''credit'')
              \<and> amount t = parseFloat_opt (at (split CHR '','' line) 2))
           (data_lines csvContent) ts"
proof (rule list_all2_mono [OF parse_rows [OF assms]])
  fix line t
  assume "\<exists>j. parse_line clk j line = Inr t"
  then obtain j where j: "parse_line clk j line = Inr t" ..
  from parse_line_fields(1) [OF j] parse_line_fields(2) [OF j]
  show "(transaction_type t = Credit \<longleftrightarrow>
           map_option toLowerCase (at (split CHR '','' line) 3) = Some ''credit'')
        \<and> (transaction_type t = Debit \<longleftrightarrow>
           map_option toLowerCase (at (split CHR '','' line) 3) \<noteq> Some ''credit'')
        \<and> amount t = parseFloat_opt (at (split CHR '','' line) 2)"
    by (auto split: if_splits)
qed

theorem transaction_type_from_direction_column_witness:
  "list_all2
     (\<lambda>line t.
        (transaction_type t = Credit \<longleftrightarrow>
           map_option toLowerCase (at (split CHR '','' line) 3) = Some ''credit'')
        \<and> (transaction_type t = Debit \<longleftrightarrow>
           map_option toLowerCase (at (split CHR '','' line) 3) \<noteq> Some ''credit'')
        \<and> amount t = parseFloat_opt (at (split CHR '','' line) 2))
     (data_lines direction_csv)
     (case parseCsvToTransactions (example_clock 0) direction_csv of Inl e \<Rightarrow> [] | Inr ts \<Rightarrow> ts)
   \<and> length (data_lines direction_csv) = 2"
proof -
  obtain ts where ts: "parseCsvToTransactions (example_clock 0) direction_csv = Inr ts"
    using direction_csv_parsed [of "example_clock 0"]
    by (cases "parseCsvToTransactions (example_clock 0) direction_csv") simp_all
  have "length (data_lines direction_csv) = 2"
    by (simp add: data_lines_def direction_csv_def csv_file_def trim_def is_ws_def)
  with transaction_type_from_direction_column [OF ts] ts show ?thesis
    by simp
qed

section \<open>Fields and decimal literals\<close>

lemma split_no_separator: "list_all (\<lambda>f. c \<notin> set f) (split c s)"
  by (induction s) (auto split: list.splits)

lemma digit_not_ws: "is_digit c \<Longrightarrow> \<not> is_ws c"
  by (auto simp: is_digit_def is_ws_def)

lemma digit_not_sign: "is_digit c \<Longrightarrow> c \<noteq> CHR ''+'' \<and> c \<noteq> CHR ''-'' \<and> c \<noteq> CHR ''I'' \<and> c \<noteq> CHR ''.''"
  by (auto simp: is_digit_def)

lemma parseFloat_plain_decimal:
  assumes "ds \<noteq> []" and "list_all is_digit ds" and "list_all is_digit fs"
  shows "parseFloat (ds @ ''.'' @ fs) = decimal (digits_val (ds @ fs)) (- int (length fs))"
proof -
  obtain d ds' where ds: "ds = d # ds'" using assms(1) by (cases ds) auto
  have d: "is_digit d" using assms(2) ds by simp
  have tw: "takeWhile is_digit (ds @ CHR ''.'' # fs) = ds"
    using assms(2) by (simp add: takeWhile_append2 list_all_iff is_digit_def)
  have dw: "dropWhile is_digit (ds @ CHR ''.'' # fs) = CHR ''.'' # fs"
    using assms(2) by (simp add: dropWhile_append2 list_all_iff is_digit_def)
  have twf: "takeWhile is_digit fs = fs" and dwf: "dropWhile is_digit fs = []"
    using assms(3) by (simp_all add: list_all_iff)
  have inf: "take 8 (ds @ ''.'' @ fs) \<noteq> ''Infinity''"
    using digit_not_sign [OF d] ds by auto
  have "parseFloat (ds @ ''.'' @ fs) = unsigned_literal (ds @ ''.'' @ fs)"
    using digit_not_ws [OF d] digit_not_sign [OF d] ds by (simp add: parseFloat_def)
  also have "\<dots> = decimal (digits_val (ds @ fs)) (- int (length fs))"
    using inf assms(1) by (simp add: unsigned_literal_def tw dw twf dwf exponent_part_def Let_def)
  finally show ?thesis .
qed

section \<open>Parsing the amount\<close>

lemma european_csv_parsed:
  "map_sum id (map (\<lambda>t. (amount t, transaction_type t, category_id t)))
     (parseCsvToTransactions clk european_csv)
     = Inr [(Fin 6122080743456768 (- 46), Debit, CatNull),
            (Fin 5557441940175192 (- 52), Debit, CatNull)]"
  by (simp add: european_csv_def file_eval line_eval parse_eval round_eval)

text \<open>
  Claim C6, as stated, fails: in the rows \<^verbatim>\<open>15-01-2024,Albert Heijn,87,45,Af\<close> and
  \<^verbatim>\<open>01-02-2024,Huur,1.234,56,Af\<close> the amounts are read as 87 and 1.234, not as 87.45 and
  1234.56; and the amounts are binary doubles, for which 0.1 + 0.2 differs from 0.3.
\<close>

theorem european_amount_counterexample:
  "map_sum id (map amount) (parseCsvToTransactions (example_clock 0) european_csv)
     = Inr [num 87, decimal 1234 (- 3)]
   \<and> \<not> js_eq (num 87) (decimal 8745 (- 2))
   \<and> \<not> js_eq (decimal 1234 (- 3)) (decimal 123456 (- 2))
   \<and> \<not> js_eq (js_add (parseFloat ''0.1'') (parseFloat ''0.2'')) (parseFloat ''0.3'')"
proof -
  have "map_sum id (map amount) (parseCsvToTransactions (example_clock 0) european_csv)
        = map_sum id (map fst)
            (map_sum id (map (\<lambda>t. (amount t, transaction_type t, category_id t)))
               (parseCsvToTransactions (example_clock 0) european_csv))"
    by (cases "parseCsvToTransactions (example_clock 0) european_csv") (simp_all add: comp_def)
  also have "\<dots> = Inr [Fin 6122080743456768 (- 46), Fin 5557441940175192 (- 52)]"
    by (simp add: european_csv_parsed)
  also have "\<dots> = Inr [num 87, decimal 1234 (- 3)]"
    by (simp add: round_eval)
  finally have a: "map_sum id (map amount) (parseCsvToTransactions (example_clock 0) european_csv)
     = Inr [num 87, decimal 1234 (- 3)]" .
  have b: "\<not> js_eq (num 87) (decimal 8745 (- 2))"
    by (simp add: js_eq_def round_eval)
  have c: "\<not> js_eq (decimal 1234 (- 3)) (decimal 123456 (- 2))"
    by (simp add: js_eq_def round_eval)
  have d: "\<not> js_eq (js_add (parseFloat ''0.1'') (parseFloat ''0.2'')) (parseFloat ''0.3'')"
    by (simp add: js_eq_def parse_eval round_eval)
  from a b c d show ?thesis by simp
qed

text \<open>
  Claim C6, amended. The amount of every parsed transaction is \<^verbatim>\<open>parseFloat\<close> of the third
  comma-separated field of its line; no field contains a comma, so a decimal comma always
  ends the field; and a field of digits, a dot and digits is read with the dot as the
  decimal point, as the double nearest to that decimal number.
\<close>

theorem amount_is_parseFloat_of_third_field:
  assumes "parseCsvToTransactions clk csvContent = Inr ts"
    and "ds \<noteq> []" and "list_all is_digit ds" and "list_all is_digit fs"
  shows "list_all2
           (\<lambda>line t. amount t = parseFloat_opt (at (split CHR '','' line) 2)
                      \<and> list_all (\<lambda>f. CHR '','' \<notin> set f) (split CHR '','' line))
           (data_lines csvContent) ts
         \<and> parseFloat (ds @ ''.'' @ fs) = decimal (digits_val (ds @ fs)) (- int (length fs))"
proof
  show "list_all2
           (\<lambda>line t. amount t = parseFloat_opt (at (split CHR '','' line) 2)
                      \<and> list_all (\<lambda>f. CHR '','' \<notin> set f) (split CHR '','' line))
           (data_lines csvContent) ts"
  proof (rule list_all2_mono [OF parse_rows [OF assms(1)]])
    fix line t
    assume "\<exists>j. parse_line clk j line = Inr t"
    then obtain j where j: "parse_line clk j line = Inr t" ..
    from parse_line_fields(2) [OF j] split_no_separator [of "CHR '',''" line]
    show "amount t = parseFloat_opt (at (split CHR '','' line) 2)
          \<and> list_all (\<lambda>f. CHR '','' \<notin> set f) (split CHR '','' line)"
      by simp
  qed
next
  show "parseFloat (ds @ ''.'' @ fs) = decimal (digits_val (ds @ fs)) (- int (length fs))"
    by (rule parseFloat_plain_decimal [OF assms(2-4)])
qed

theorem amount_is_parseFloat_of_third_field_witness:
  "list_all2
     (\<lambda>line t. amount t = parseFloat_opt (at (split CHR '','' line) 2)
                \<and> list_all (\<lambda>f. CHR '','' \<notin> set f) (split CHR '','' line))
     (data_lines direction_csv)
     (case parseCsvToTransactions (example_clock 0) direction_csv of Inl e \<Rightarrow> [] | Inr ts \<Rightarrow> ts)
   \<and> length (data_lines direction_csv) = 2
   \<and> parseFloat ''2800.00'' = decimal 280000 (- 2)"
proof -
  obtain ts where ts: "parseCsvToTransactions (example_clock 0) direction_csv = Inr ts"
    using direction_csv_parsed [of "example_clock 0"]
    by (cases "parseCsvToTransactions (example_clock 0) direction_csv") simp_all
  have n: "length (data_lines direction_csv) = 2"
    by (simp add: data_lines_def direction_csv_def csv_file_def trim_def is_ws_def)
  have d: "''2800'' \<noteq> []" "list_all is_digit ''2800''" "list_all is_digit ''00''"
    by (simp_all add: is_digit_def)
  from amount_is_parseFloat_of_third_field [OF ts d] ts n show ?thesis
    by (simp add: digits_val_def digit_val_def)
qed

section \<open>Categories\<close>

lemma fallback_csv_parsed:
  "map_sum id (map category_id) (parseCsvToTransactions clk fallback_csv) = Inr [CatNull]"
  by (simp add: fallback_csv_def file_eval line_eval parse_eval round_eval)

text \<open>
  Claim C5, as stated, fails: a row whose category column is \<^verbatim>\<open>Overig\<close> gets the
  category \<^verbatim>\<open>null\<close>.
\<close>

theorem category_fallback_counterexample:
  "map_sum id (map category_id) (parseCsvToTransactions (example_clock 0) fallback_csv)
     = Inr [CatNull]
   \<and> mapCategory (Some ''Overig'') = CatNull"
  by (simp add: fallback_csv_parsed) (simp add: mapCategory_def categoryMap_def object_prototype_names_def)

lemma mapCategory_cases:
  "(mapCategory v = CatNull \<longleftrightarrow>
      (case v of None \<Rightarrow> True
       | Some n \<Rightarrow> n \<notin> fst ` set categoryMap \<and> n \<notin> set object_prototype_names))
   \<and> ((\<exists>c. mapCategory v = CatId c) \<longleftrightarrow>
      (case v of None \<Rightarrow> False | Some n \<Rightarrow> n \<in> fst ` set categoryMap))"
proof (cases v)
  case None
  then show ?thesis by (simp add: mapCategory_def)
next
  case (Some n)
  show ?thesis
  proof (cases "map_of categoryMap n")
    case None
    then have "n \<notin> fst ` set categoryMap" by (simp add: map_of_eq_None_iff)
    with None Some show ?thesis by (simp add: mapCategory_def)
  next
    case (Some c)
    then have "n \<in> fst ` set categoryMap" by (metis map_of_eq_None_iff option.distinct(1))
    with Some \<open>v = Some n\<close> show ?thesis by (simp add: mapCategory_def)
  qed
qed

text \<open>
  Claim C5, amended. The category of every parsed transaction is \<^verbatim>\<open>mapCategory\<close> of the
  fifth field of its line, which never fails but has no fallback: it is an identifier
  exactly when the field is one of the names of the table, and \<^verbatim>\<open>null\<close> exactly when the
  field is missing or is neither a name of the table nor the name of a member inherited
  from \<^verbatim>\<open>Object.prototype\<close>.
\<close>

theorem category_without_fallback:
  assumes "parseCsvToTransactions clk csvContent = Inr ts"
  shows "list_all2
           (\<lambda>line t.
              category_id t = mapCategory (at (split CHR '','' line) 4)
              \<and> (category_id t = CatNull \<longleftrightarrow>
                    (case at (split CHR '','' line) 4 of
                       None \<Rightarrow> True
                     | Some n \<Rightarrow> n \<notin> fst ` set categoryMap \<and> n \<notin> set object_prototype_names))
              \<and> ((\<exists>c. category_id t = CatId c) \<longleftrightarrow>
                    (case at (split CHR '','' line) 4 of
                       None \<Rightarrow> False
                     | Some n \<Rightarrow> n \<in> fst ` set categoryMap)))
           (data_lines csvContent) ts"
proof (rule list_all2_mono [OF parse_rows [OF assms]])
  fix line t
  assume "\<exists>j. parse_line clk j line = Inr t"
  then obtain j where j: "parse_line clk j line = Inr t" ..
  from parse_line_fields(3) [OF j] mapCategory_cases [of "at (split CHR '','' line) 4"]
  show "category_id t = mapCategory (at (split CHR '','' line) 4)
        \<and> (category_id t = CatNull \<longleftrightarrow>
              (case at (split CHR '','' line) 4 of
                 None \<Rightarrow> True
               | Some n \<Rightarrow> n \<notin> fst ` set categoryMap \<and> n \<notin> set object_prototype_names))
        \<and> ((\<exists>c. category_id t = CatId c) \<longleftrightarrow>
              (case at (split CHR '','' line) 4 of
                 None \<Rightarrow> False
               | Some n \<Rightarrow> n \<in> fst ` set categoryMap))"
    by simp
qed

theorem category_without_fallback_witness:
  "list_all2
     (\<lambda>line t.
        category_id t = mapCategory (at (split CHR '','' line) 4)
        \<and> (category_id t = CatNull \<longleftrightarrow>
              (case at (split CHR '','' line) 4 of
                 None \<Rightarrow> True
               | Some n \<Rightarrow> n \<notin> fst ` set categoryMap \<and> n \<notin> set object_prototype_names))
        \<and> ((\<exists>c. category_id t = CatId c) \<longleftrightarrow>
              (case at (split CHR '','' line) 4 of
                 None \<Rightarrow> False
               | Some n \<Rightarrow> n \<in> fst ` set categoryMap)))
     (data_lines fallback_csv)
     (case parseCsvToTransactions (example_clock 0) fallback_csv of Inl e \<Rightarrow> [] | Inr ts \<Rightarrow> ts)
   \<and> length (data_lines fallback_csv) = 1"
proof -
  obtain ts where ts: "parseCsvToTransactions (example_clock 0) fallback_csv = Inr ts"
    using fallback_csv_parsed [of "example_clock 0"]
    by (cases "parseCsvToTransactions (example_clock 0) fallback_csv") simp_all
  have n: "length (data_lines fallback_csv) = 1"
    by (simp add: data_lines_def fallback_csv_def csv_file_def trim_def is_ws_def)
  from category_without_fallback [OF ts] ts n show ?thesis
    by simp
qed

section \<open>Running the import twice\<close>

lemma parse_lines_length:
  "parse_lines clk i ls = Inr ts \<Longrightarrow> length ts = length (filter (\<lambda>l. l \<noteq> []) (map trim ls))"
  using list_all2_lengthD [OF parse_lines_rows [of clk i ls ts]] by simp

lemma parse_length:
  "parseCsvToTransactions clk csvContent = Inr ts \<Longrightarrow> length ts = length (data_lines csvContent)"
  unfolding parseCsvToTransactions_def data_lines_def by (rule parse_lines_length)

lemma parse_restamp:
  "parseCsvToTransactions clk' csvContent
     = map_sum id (map (restamp clk')) (parseCsvToTransactions clk csvContent)"
  unfolding parseCsvToTransactions_def by (rule parse_lines_restamp)

lemma exportData_transactions:
  assumes "exportData True importJson clk1 clk2 csvContent seed out = Inr out1"
  shows "\<exists>ts. parseCsvToTransactions clk2 csvContent = Inr ts \<and> transactions_json out1 = Some ts"
  using assms
  by (auto simp: exportData_def prepareData_def split: sum.splits if_splits)

lemma exportData_succeeds:
  assumes "parseCsvToTransactions clk csvContent = Inr ts"
  shows "\<exists>out2. exportData True importJson clk3 clk4 csvContent seed out = Inr out2
               \<and> transactions_json out2 = Some (map (restamp clk4) ts)"
proof -
  have 3: "parseCsvToTransactions clk3 csvContent = Inr (map (restamp clk3) ts)"
    using parse_restamp [of clk3 csvContent clk] assms by simp
  have 4: "parseCsvToTransactions clk4 csvContent = Inr (map (restamp clk4) ts)"
    using parse_restamp [of clk4 csvContent clk] assms by simp
  show ?thesis
    by (cases importJson) (simp_all add: exportData_def prepareData_def 3 4)
qed

text \<open>
  Claim C1, amended. After a successful import the transactions file holds exactly one
  transaction for each non-blank data line of the file, whatever it held before; importing
  the same file again succeeds and replaces them by the same transactions with the
  identifiers and time stamps of the new run, so that every run processes all rows again
  and none is counted as a duplicate.
\<close>

theorem reimport_repeats_all_rows:
  assumes "exportData True importJson clk1 clk2 csvContent seed out = Inr out1"
  shows "\<exists>ts. transactions_json out1 = Some ts
              \<and> length ts = length (data_lines csvContent)
              \<and> (\<exists>out2. exportData True importJson' clk3 clk4 csvContent seed' out1 = Inr out2
                         \<and> transactions_json out2 = Some (map (restamp clk4) ts))"
proof -
  from exportData_transactions [OF assms] obtain ts
    where ts: "parseCsvToTransactions clk2 csvContent = Inr ts" "transactions_json out1 = Some ts"
    by blast
  from exportData_succeeds [OF ts(1)] parse_length [OF ts(1)] ts(2)
  show ?thesis by blast
qed

lemma single_row_parsed:
  "map_sum id (map txn_id) (parseCsvToTransactions clk single_row_csv) = Inr [(date_now clk 1, 1)]"
  by (simp add: single_row_csv_def file_eval line_eval parse_eval round_eval)

lemma single_row_export:
  "map_sum id (\<lambda>out. map_option (map txn_id) (transactions_json out))
     (exportData True False clk1 clk2 single_row_csv seed out)
   = Inr (Some [(date_now clk2 1, 1)])"
proof -
  obtain ts where ts: "parseCsvToTransactions clk2 single_row_csv = Inr ts"
    using single_row_parsed [of clk2]
    by (cases "parseCsvToTransactions clk2 single_row_csv") simp_all
  with single_row_parsed [of clk2] show ?thesis
    by (simp add: exportData_def)
qed

text \<open>
  Claim C1, as stated, fails: importing a file with one row, and importing it again into
  the resulting output, writes one transaction each time; the second run does not import
  zero rows, and its transaction carries a new identifier.
\<close>

theorem reimport_counterexample:
  "(case exportData True False (example_clock 1700000000000) (example_clock 1700000000000)
          single_row_csv empty_seed empty_output of
      Inl e \<Rightarrow> False
    | Inr out1 \<Rightarrow>
        map_option (map txn_id) (transactions_json out1) = Some [(1700000000001, 1)]
        \<and> map_sum id (\<lambda>out2. map_option (map txn_id) (transactions_json out2))
             (exportData True False (example_clock 1700000060000) (example_clock 1700000060000)
                single_row_csv empty_seed out1)
           = Inr (Some [(1700000060001, 1)]))"
proof (cases "exportData True False (example_clock 1700000000000) (example_clock 1700000000000)
          single_row_csv empty_seed empty_output")
  case (Inl e)
  with single_row_export [of "example_clock 1700000000000" "example_clock 1700000000000"
      empty_seed empty_output]
  show ?thesis by simp
next
  case (Inr out1)
  with single_row_export [of "example_clock 1700000000000" "example_clock 1700000000000"
      empty_seed empty_output]
    single_row_export [of "example_clock 1700000060000" "example_clock 1700000060000"
      empty_seed out1]
  show ?thesis by (simp add: example_clock_def)
qed

theorem reimport_repeats_all_rows_witness:
  "(\<exists>out1. exportData True False (example_clock 1700000000000) (example_clock 1700000000000)
             single_row_csv empty_seed empty_output = Inr out1
          \<and> (\<exists>ts. transactions_json out1 = Some ts
                 \<and> length ts = 1
                 \<and> (\<exists>out2. exportData True False (example_clock 1700000060000)
                              (example_clock 1700000060000) single_row_csv empty_seed out1 = Inr out2
                         \<and> transactions_json out2
                            = Some (map (restamp (example_clock 1700000060000)) ts))))"
proof -
  obtain out1 where out1:
    "exportData True False (example_clock 1700000000000) (example_clock 1700000000000)
       single_row_csv empty_seed empty_output = Inr out1"
    using single_row_export [of "example_clock 1700000000000" "example_clock 1700000000000"
      empty_seed empty_output]
    by (cases "exportData True False (example_clock 1700000000000) (example_clock 1700000000000)
       single_row_csv empty_seed empty_output") simp_all
  have n: "length (data_lines single_row_csv) = 1"
    by (simp add: data_lines_def single_row_csv_def csv_file_def trim_def is_ws_def)
  from reimport_repeats_all_rows [OF out1, of False "example_clock 1700000060000"
      "example_clock 1700000060000" empty_seed] n out1
  show ?thesis by simp
qed

section \<open>Spending per category\<close>

lemma proto_key: "''__proto__'' \<in> set object_prototype_names"
  by (simp add: object_prototype_names_def)

lemma spending_step_key:
  assumes "k \<notin> set object_prototype_names"
  shows "spending_step m t k =
     (if transaction_type t = Debit \<and> cat_truthy (category_id t)
         \<and> property_key (category_id t) = k
      then Some (value_add (value_or0 (m k)) (js_abs (amount t))) else m k)"
proof -
  have k: "k \<noteq> ''__proto__''" using assms proto_key by auto
  have g: "obj_get m k = m k" using assms by (simp add: obj_get_def split: option.splits)
  show ?thesis
    using k g by (auto simp: spending_step_def obj_set_def)
qed

lemma spending_step_other:
  assumes "\<not> (transaction_type t = Debit \<and> cat_truthy (category_id t)
              \<and> property_key (category_id t) = k)"
  shows "spending_step m t k = m k"
  using assms by (auto simp: spending_step_def obj_set_def)

lemma spending_fold_key:
  assumes "k \<notin> set object_prototype_names"
  shows "foldl spending_step m txs k =
     foldl (\<lambda>acc x. Some (value_add (value_or0 acc) (js_abs x))) (m k)
       (map amount
          (filter (\<lambda>t. transaction_type t = Debit \<and> cat_truthy (category_id t)
                        \<and> property_key (category_id t) = k) txs))"
proof (induction txs arbitrary: m)
  case Nil
  then show ?case by simp
next
  case (Cons t txs)
  have "foldl spending_step m (t # txs) k = foldl spending_step (spending_step m t) txs k"
    by simp
  also have "\<dots> = foldl (\<lambda>acc x. Some (value_add (value_or0 acc) (js_abs x)))
       (spending_step m t k)
       (map amount
          (filter (\<lambda>t. transaction_type t = Debit \<and> cat_truthy (category_id t)
                        \<and> property_key (category_id t) = k) txs))"
    by (rule Cons.IH)
  finally have "foldl spending_step m (t # txs) k =
      foldl (\<lambda>acc x. Some (value_add (value_or0 acc) (js_abs x))) (spending_step m t k)
       (map amount
          (filter (\<lambda>t. transaction_type t = Debit \<and> cat_truthy (category_id t)
                        \<and> property_key (category_id t) = k) txs))" .
  then show ?case
    unfolding spending_step_key [OF assms, of m t] by simp
qed

lemma spending_fold_untouched:
  assumes "filter (\<lambda>t. transaction_type t = Debit \<and> cat_truthy (category_id t)
                        \<and> property_key (category_id t) = k) txs = []"
  shows "foldl spending_step m txs k = m k"
  using assms
proof (induction txs arbitrary: m)
  case Nil
  then show ?case by simp
next
  case (Cons t txs)
  from Cons.prems have t: "\<not> (transaction_type t = Debit \<and> cat_truthy (category_id t)
              \<and> property_key (category_id t) = k)"
    and r: "filter (\<lambda>t. transaction_type t = Debit \<and> cat_truthy (category_id t)
                        \<and> property_key (category_id t) = k) txs = []"
    by (auto split: if_splits)
  have "foldl spending_step m (t # txs) k = foldl spending_step (spending_step m t) txs k"
    by simp
  also have "\<dots> = spending_step m t k" by (rule Cons.IH [OF r])
  also have "\<dots> = m k" by (rule spending_step_other [OF t])
  finally show ?case .
qed

lemma number_fold:
  "foldl (\<lambda>acc x. Some (value_add (value_or0 acc) (js_abs x))) (map_option Num a) xs
     = map_option Num (foldl (\<lambda>acc x. Some (js_add (or0 acc) (js_abs x))) a xs)"
proof (induction xs arbitrary: a)
  case Nil
  then show ?case by simp
next
  case (Cons x xs)
  have "Some (value_add (value_or0 (map_option Num a)) (js_abs x))
        = map_option Num (Some (js_add (or0 a) (js_abs x)))"
    by (cases a) simp_all
  then show ?case
    using Cons.IH [of "Some (js_add (or0 a) (js_abs x))"] by simp
qed

lemma spendingByCategory_key:
  assumes "k \<notin> set object_prototype_names"
  shows "value_or0 (obj_get (spendingByCategory txs) k) =
     Num (or0 (foldl (\<lambda>acc x. Some (js_add (or0 acc) (js_abs x))) None
       (map amount
          (filter (\<lambda>t. transaction_type t = Debit \<and> cat_truthy (category_id t)
                        \<and> property_key (category_id t) = k) txs))))"
proof -
  have g: "obj_get (spendingByCategory txs) k = spendingByCategory txs k"
    using assms by (simp add: obj_get_def split: option.splits)
  have "spendingByCategory txs k =
     map_option Num (foldl (\<lambda>acc x. Some (js_add (or0 acc) (js_abs x))) None
       (map amount
          (filter (\<lambda>t. transaction_type t = Debit \<and> cat_truthy (category_id t)
                        \<and> property_key (category_id t) = k) txs)))"
    using spending_fold_key [OF assms, of Map.empty txs] number_fold [of None]
    by (simp add: spendingByCategory_def)
  then show ?thesis
    unfolding g
    by (cases "foldl (\<lambda>acc x. Some (js_add (or0 acc) (js_abs x))) None
       (map amount
          (filter (\<lambda>t. transaction_type t = Debit \<and> cat_truthy (category_id t)
                        \<and> property_key (category_id t) = k) txs))") simp_all
qed

lemma round_half_even_nonneg: "0 \<le> a \<Longrightarrow> 0 \<le> round_half_even a sh"
  by (simp add: round_half_even_def Let_def pos_imp_zdiv_nonneg_iff)

lemma dy_le_zero: "dy_le 0 0 m e \<longleftrightarrow> 0 \<le> m"
  by (simp add: dy_le_def Let_def zero_le_mult_iff)

lemma round_dy_nonneg: "0 \<le> n \<Longrightarrow> nonneg (round_dy n k)"
  using round_half_even_nonneg [of n]
  by (auto simp: nonneg_def round_dy_def Let_def dy_le_zero)

lemma js_abs_nonneg: "x \<noteq> NaN \<Longrightarrow> nonneg (js_abs x)"
  by (cases x) (simp_all add: nonneg_def dy_le_zero)

lemma js_add_nonneg: "nonneg a \<Longrightarrow> nonneg b \<Longrightarrow> nonneg (js_add a b)"
proof (cases a; cases b)
  fix m1 e1 m2 e2
  assume "a = Fin m1 e1" "b = Fin m2 e2" "nonneg a" "nonneg b"
  then show "nonneg (js_add a b)"
    using round_dy_nonneg [of "m1 * 2 ^ nat (e1 - min e1 e2) + m2 * 2 ^ nat (e2 - min e1 e2)" "min e1 e2"]
    by (simp add: nonneg_def dy_le_zero Let_def)
qed (simp_all add: nonneg_def)

lemma or0_nonneg: "(\<And>x. v = Some x \<Longrightarrow> x = NaN \<or> nonneg x) \<Longrightarrow> nonneg (or0 v)"
  by (cases v) (auto simp: nonneg_def dy_le_zero)

lemma sum_step_nonneg:
  assumes "\<And>x. acc = Some x \<Longrightarrow> x = NaN \<or> nonneg x"
  shows "js_add (or0 acc) (js_abs y) = NaN \<or> nonneg (js_add (or0 acc) (js_abs y))"
proof (cases "y = NaN")
  case True
  then show ?thesis by (cases "or0 acc") simp_all
next
  case False
  then show ?thesis
    using js_add_nonneg [OF or0_nonneg js_abs_nonneg, of acc y] assms by blast
qed

lemma sum_fold_nonneg:
  assumes "\<And>x. acc = Some x \<Longrightarrow> x = NaN \<or> nonneg x"
  shows "\<And>x. foldl (\<lambda>acc x. Some (js_add (or0 acc) (js_abs x))) acc ys = Some x \<Longrightarrow> x = NaN \<or> nonneg x"
  using assms
proof (induction ys arbitrary: acc)
  case Nil
  then show ?case by simp
next
  case (Cons y ys)
  show ?case
  proof (rule Cons.IH [of "Some (js_add (or0 acc) (js_abs y))"])
    show "foldl (\<lambda>acc x. Some (js_add (or0 acc) (js_abs x))) (Some (js_add (or0 acc) (js_abs y))) ys = Some x"
      using Cons.prems(1) by simp
  next
    fix z assume "Some (js_add (or0 acc) (js_abs y)) = Some z"
    then show "z = NaN \<or> nonneg z"
      using sum_step_nonneg [of acc y] Cons.prems(2) by auto
  qed
qed

lemma sum_nonneg:
  "nonneg (or0 (foldl (\<lambda>acc x. Some (js_add (or0 acc) (js_abs x))) None ys))"
proof (rule or0_nonneg)
  fix x assume "foldl (\<lambda>acc x. Some (js_add (or0 acc) (js_abs x))) None ys = Some x"
  then show "x = NaN \<or> nonneg x"
    using sum_fold_nonneg [of None] by simp
qed

lemma table_ids_not_inherited:
  "c \<in> snd ` set categoryMap \<Longrightarrow>
   c \<notin> set object_prototype_names \<and> c \<noteq> ''undefined'' \<and> c \<noteq> ''null''"
  by (auto simp: categoryMap_def object_prototype_names_def)

lemma mapCategory_key:
  assumes "cat_truthy (mapCategory v)"
  shows "property_key (mapCategory v) \<notin> set object_prototype_names
   \<and> property_key (mapCategory v) \<noteq> ''undefined'' \<and> property_key (mapCategory v) \<noteq> ''null''"
proof (cases v)
  case None
  with assms show ?thesis by (simp add: mapCategory_def cat_truthy_def)
next
  case (Some n)
  show ?thesis
  proof (cases "map_of categoryMap n")
    case None
    with Some assms show ?thesis
      by (auto simp: mapCategory_def property_key_def cat_truthy_def object_prototype_names_def
          split: if_splits)
  next
    case (Some c)
    then have "c \<in> snd ` set categoryMap"
      by (metis map_of_SomeD image_eqI snd_conv)
    with Some \<open>v = Some n\<close> table_ids_not_inherited [of c] show ?thesis
      by (simp add: mapCategory_def property_key_def)
  qed
qed

lemma parsed_keys:
  assumes "parseCsvToTransactions clk csvContent = Inr txs"
    and "k \<in> set object_prototype_names \<or> k = ''undefined'' \<or> k = ''null''"
  shows "filter (\<lambda>t. transaction_type t = Debit \<and> cat_truthy (category_id t)
                      \<and> property_key (category_id t) = k) txs = []"
proof -
  have "\<not> (cat_truthy (category_id t) \<and> property_key (category_id t) = k)"
    if "t \<in> set txs" for t
  proof -
    from that obtain n where n: "n < length txs" "txs ! n = t"
      by (auto simp: in_set_conv_nth)
    with parse_rows [OF assms(1)] have "\<exists>j. parse_line clk j (data_lines csvContent ! n) = Inr t"
      by (auto simp: list_all2_conv_all_nth)
    then obtain j where "parse_line clk j (data_lines csvContent ! n) = Inr t" ..
    from parse_line_fields(3) [OF this]
      mapCategory_key [of "at (split CHR '','' (data_lines csvContent ! n)) 4"] assms(2)
    show ?thesis by auto
  qed
  then show ?thesis by (auto simp: filter_empty_conv)
qed

lemma parsed_not_own:
  assumes "parseCsvToTransactions clk csvContent = Inr txs"
    and "k \<in> set object_prototype_names \<or> k = ''undefined'' \<or> k = ''null''"
  shows "spendingByCategory txs k = None"
  using spending_fold_untouched [OF parsed_keys [OF assms], of Map.empty]
  by (simp add: spendingByCategory_def)

lemma prepareData_budgets:
  assumes "prepareData True clk csvContent seed = Inr seed'"
  shows "\<exists>txs. parseCsvToTransactions clk csvContent = Inr txs
               \<and> budgets seed' = map (update_budget (spendingByCategory txs)) (budgets seed)"
  using assms by (auto simp: prepareData_def split: sum.splits)

lemma update_budget_fields:
  "seed_spent (update_budget m b) = value_or0 (obj_get m (budget_key (seed_category_id b)))"
  "seed_remaining (update_budget m b)
     = js_sub (seed_amount b) (to_number (value_or0 (obj_get m (budget_key (seed_category_id b)))))"
  "seed_amount (update_budget m b) = seed_amount b"
  "seed_category_id (update_budget m b) = seed_category_id b"
  by (simp_all add: update_budget_def Let_def)

lemma js_sub_NaN: "js_sub a NaN = NaN"
  by (cases a) (simp_all add: js_sub_def)


lemmas prepare_eval = prepareData_def spendingByCategory_def spending_step_def update_budget_def
  budget_key_def property_key_def cat_truthy_def obj_get_def obj_set_def
  object_prototype_names_def example_seed_budget_def

section \<open>Spent and remaining\<close>

text \<open>
  Claim C4, amended. After an import every budget has its remaining amount recomputed as
  the double \<open>amount - spent\<close>, which is NaN when spent is not a number, and the amounts
  are unchanged. For a budget whose category is not the name of a member of
  \<^verbatim>\<open>Object.prototype\<close>, spent is a number and \<open>spent \<ge> 0\<close>; for a budget whose category
  names such a member, spent is that inherited member and remaining is NaN. The card of
  the Budgets page shows \<open>amount - spent\<close> as well. The sum \<open>spent + remaining\<close> is not
  claimed to equal the amount: both operations round.
\<close>

theorem budget_remaining_recomputed:
  assumes "prepareData True clk csvContent seed = Inr seed'"
  shows "list_all
           (\<lambda>b. seed_remaining b = js_sub (seed_amount b) (to_number (seed_spent b))
                \<and> (if budget_key (seed_category_id b) \<in> set object_prototype_names
                    then seed_spent b = Inherited (budget_key (seed_category_id b))
                         \<and> seed_remaining b = NaN
                    else seed_spent b = Num (to_number (seed_spent b))
                         \<and> js_le (num 0) (to_number (seed_spent b))))
           (budgets seed')
         \<and> map seed_amount (budgets seed') = map seed_amount (budgets seed)
         \<and> card_remaining budget = js_sub (budget_amount budget) (spent budget)"
proof -
  from prepareData_budgets [OF assms] obtain txs
    where txs: "parseCsvToTransactions clk csvContent = Inr txs"
      and b: "budgets seed' = map (update_budget (spendingByCategory txs)) (budgets seed)"
    by blast
  have one: "seed_remaining (update_budget (spendingByCategory txs) x)
               = js_sub (seed_amount (update_budget (spendingByCategory txs) x))
                   (to_number (seed_spent (update_budget (spendingByCategory txs) x)))
             \<and> (if budget_key (seed_category_id (update_budget (spendingByCategory txs) x))
                     \<in> set object_prototype_names
                 then seed_spent (update_budget (spendingByCategory txs) x)
                        = Inherited (budget_key (seed_category_id (update_budget (spendingByCategory txs) x)))
                      \<and> seed_remaining (update_budget (spendingByCategory txs) x) = NaN
                 else seed_spent (update_budget (spendingByCategory txs) x)
                        = Num (to_number (seed_spent (update_budget (spendingByCategory txs) x)))
                      \<and> js_le (num 0)
                          (to_number (seed_spent (update_budget (spendingByCategory txs) x))))"
    for x
  proof (cases "budget_key (seed_category_id x) \<in> set object_prototype_names")
    case True
    then have "obj_get (spendingByCategory txs) (budget_key (seed_category_id x))
                 = Some (Inherited (budget_key (seed_category_id x)))"
      using parsed_not_own [OF txs, of "budget_key (seed_category_id x)"]
      by (simp add: obj_get_def)
    with True show ?thesis
      by (simp add: update_budget_fields js_sub_NaN)
  next
    case False
    from spendingByCategory_key [OF False, of txs]
      sum_nonneg [of "map amount
          (filter (\<lambda>t. transaction_type t = Debit \<and> cat_truthy (category_id t)
                        \<and> property_key (category_id t) = budget_key (seed_category_id x)) txs)"]
      False
    show ?thesis
      by (simp add: update_budget_fields nonneg_def num_0)
  qed
  have "list_all
           (\<lambda>b. seed_remaining b = js_sub (seed_amount b) (to_number (seed_spent b))
                \<and> (if budget_key (seed_category_id b) \<in> set object_prototype_names
                    then seed_spent b = Inherited (budget_key (seed_category_id b))
                         \<and> seed_remaining b = NaN
                    else seed_spent b = Num (to_number (seed_spent b))
                         \<and> js_le (num 0) (to_number (seed_spent b))))
           (budgets seed')"
    unfolding b list_all_iff
  proof
    fix y
    assume "y \<in> set (map (update_budget (spendingByCategory txs)) (budgets seed))"
    then obtain x where y: "y = update_budget (spendingByCategory txs) x" by auto
    show "seed_remaining y = js_sub (seed_amount y) (to_number (seed_spent y))
          \<and> (if budget_key (seed_category_id y) \<in> set object_prototype_names
              then seed_spent y = Inherited (budget_key (seed_category_id y))
                   \<and> seed_remaining y = NaN
              else seed_spent y = Num (to_number (seed_spent y))
                   \<and> js_le (num 0) (to_number (seed_spent y)))"
      unfolding y by (rule one)
  qed
  moreover have "map seed_amount (budgets seed') = map seed_amount (budgets seed)"
    by (simp add: b update_budget_fields comp_def)
  moreover have "card_remaining budget = js_sub (budget_amount budget) (spent budget)"
    by (simp add: card_remaining_def)
  ultimately show ?thesis by blast
qed

lemma rounding_parsed:
  "parseCsvToTransactions clk rounding_csv
   = Inr [\<lparr> txn_id = (date_now clk 1, 1), date = ''05-01-2024'', description = Some ''Jumbo'',
            amount = Fin 7487234380503450 (- 50), transaction_type = Debit,
            category_id = CatId ''cat_supermarkets'', account_number = None,
            account_holder = None, tags = [], tx_notes = [], is_recurring = False,
            created_at = created_now clk 1, updated_at = updated_now clk 1 \<rparr>]"
  by (simp add: rounding_csv_def file_eval line_eval parse_eval round_eval)

lemma rounding_prepared:
  "map_sum id (\<lambda>sd. map (\<lambda>b. (seed_spent b, seed_remaining b)) (budgets sd))
     (prepareData True clk rounding_csv rounding_seed)
   = Inr [(Num (Fin 7487234380503450 (- 50)), Fin 6575255455960924 (- 48)),
          (Inherited ''toString'', NaN)]"
  by (simp add: rounding_parsed rounding_seed_def prepare_eval parse_eval js_sub_def round_eval)

text \<open>
  Claim C4, as stated, fails: for a budget of 30.01 with 6.65 spent, the remaining amount
  is the double nearest to 23.36 and \<open>spent + remaining\<close> is 30.009999999999998, which
  differs from the amount.
\<close>

theorem budget_sum_counterexample:
  "map_sum id
     (\<lambda>sd. map (\<lambda>b. (seed_spent b, seed_remaining b,
                      js_eq (js_add (to_number (seed_spent b)) (seed_remaining b)) (seed_amount b)))
               (take 1 (budgets sd)))
     (prepareData True (example_clock 0) rounding_csv rounding_seed)
   = Inr [(Num (parseFloat ''6.65''), js_sub (parseFloat ''30.01'') (parseFloat ''6.65''), False)]"
  by (simp add: rounding_parsed rounding_seed_def prepare_eval parse_eval js_sub_def js_eq_def
      round_eval)

theorem budget_remaining_recomputed_witness:
  "(\<exists>seed'. prepareData True (example_clock 0) rounding_csv rounding_seed = Inr seed'
      \<and> map (\<lambda>b. (seed_spent b, seed_remaining b)) (budgets seed')
          = [(Num (Fin 7487234380503450 (- 50)), Fin 6575255455960924 (- 48)),
             (Inherited ''toString'', NaN)]
      \<and> list_all
           (\<lambda>b. seed_remaining b = js_sub (seed_amount b) (to_number (seed_spent b))
                \<and> (if budget_key (seed_category_id b) \<in> set object_prototype_names
                    then seed_spent b = Inherited (budget_key (seed_category_id b))
                         \<and> seed_remaining b = NaN
                    else seed_spent b = Num (to_number (seed_spent b))
                         \<and> js_le (num 0) (to_number (seed_spent b))))
           (budgets seed')
      \<and> map seed_amount (budgets seed') = [parseFloat ''30.01'', num 100])"
proof -
  obtain seed' where s: "prepareData True (example_clock 0) rounding_csv rounding_seed = Inr seed'"
    by (simp add: prepareData_def rounding_parsed)
  have c: "map (\<lambda>b. (seed_spent b, seed_remaining b)) (budgets seed')
          = [(Num (Fin 7487234380503450 (- 50)), Fin 6575255455960924 (- 48)),
             (Inherited ''toString'', NaN)]"
    using rounding_prepared [of "example_clock 0"] s by simp
  have d: "map seed_amount (budgets rounding_seed) = [parseFloat ''30.01'', num 100]"
    by (simp add: rounding_seed_def example_seed_budget_def)
  note e = budget_remaining_recomputed [OF s, of "example_budget (num 300) (num 255) None"]
  from e have e1: "list_all
           (\<lambda>b. seed_remaining b = js_sub (seed_amount b) (to_number (seed_spent b))
                \<and> (if budget_key (seed_category_id b) \<in> set object_prototype_names
                    then seed_spent b = Inherited (budget_key (seed_category_id b))
                         \<and> seed_remaining b = NaN
                    else seed_spent b = Num (to_number (seed_spent b))
                         \<and> js_le (num 0) (to_number (seed_spent b))))
           (budgets seed')"
    by (rule conjunct1)
  from e have "map seed_amount (budgets seed') = map seed_amount (budgets rounding_seed)"
    by blast
  then have e2: "map seed_amount (budgets seed') = [parseFloat ''30.01'', num 100]"
    unfolding d .
  show ?thesis
    by (rule exI [of _ seed']) (intro conjI s c e1 e2)
qed


section \<open>What counts as spent\<close>

lemma period_parsed:
  "parseCsvToTransactions clk period_csv
   = Inr [\<lparr> txn_id = (date_now clk 1, 1), date = ''15-01-2024'', description = Some ''Jumbo'',
            amount = Fin 5629499534213120 (- 48), transaction_type = Debit,
            category_id = CatId ''cat_supermarkets'', account_number = None,
            account_holder = None, tags = [], tx_notes = [], is_recurring = False,
            created_at = created_now clk 1, updated_at = updated_now clk 1 \<rparr>,
          \<lparr> txn_id = (date_now clk (Suc (Suc 0)), 2), date = ''01-05-2023'', description = Some ''Jumbo'',
            amount = Fin 7036874417766400 (- 47), transaction_type = Debit,
            category_id = CatId ''cat_supermarkets'', account_number = None,
            account_holder = None, tags = [], tx_notes = [], is_recurring = False,
            created_at = created_now clk (Suc (Suc 0)),
            updated_at = updated_now clk (Suc (Suc 0)) \<rparr>]"
  by (simp add: period_csv_def file_eval line_eval parse_eval round_eval)

text \<open>
  Claim C2, as stated, fails: after importing two supermarket purchases, 20.00 dated
  January 2024 and 50.00 dated May 2023, with January 2024 as the current period of both
  budgets, the budget without category has spent 0 where the claim counts all
  transactions of the period (20), and the supermarket budget has spent 70 where the
  claim counts only the transactions of the period (20).
\<close>

theorem spent_period_counterexample:
  "map_sum id (\<lambda>sd. map seed_spent (budgets sd))
     (prepareData True (example_clock 0) period_csv period_seed)
   = Inr [Num (num 0), Num (num 70)]
   \<and> map_sum id
       (\<lambda>txs. map (\<lambda>b. spec_spent (\<lambda>d. drop 3 d = ''01-2024'') b txs) (budgets period_seed))
       (parseCsvToTransactions (example_clock 0) period_csv)
     = Inr [num 20, num 20]
   \<and> \<not> js_eq (num 0) (num 20)
   \<and> \<not> js_eq (num 70) (num 20)"
proof -
  have a: "map_sum id (\<lambda>sd. map seed_spent (budgets sd))
     (prepareData True (example_clock 0) period_csv period_seed) = Inr [Num (num 0), Num (num 70)]"
    by (simp add: period_parsed period_seed_def prepare_eval round_eval)
  have b: "map_sum id
       (\<lambda>txs. map (\<lambda>b. spec_spent (\<lambda>d. drop 3 d = ''01-2024'') b txs) (budgets period_seed))
       (parseCsvToTransactions (example_clock 0) period_csv)
     = Inr [num 20, num 20]"
    by (simp add: period_parsed period_seed_def example_seed_budget_def spec_spent_def round_eval)
  have c: "\<not> js_eq (num 0) (num 20)"
    by (simp add: js_eq_def round_eval)
  have d: "\<not> js_eq (num 70) (num 20)"
    by (simp add: js_eq_def round_eval)
  from a b c d show ?thesis by (intro conjI)
qed

text \<open>
  Claim C2, amended. After an import, the spent figure of every budget whose category is
  not the name of a member of \<^verbatim>\<open>Object.prototype\<close> is the sum, accumulated in file order
  in double arithmetic, with an accumulated NaN or 0 read as 0, of \<open>abs(amount)\<close> over
  the debit transactions of the imported file whose category, as a property key, is the
  budget's category, whatever their date; a budget whose category is missing or
  \<^verbatim>\<open>null\<close> has spent 0; a budget whose category names a member of \<^verbatim>\<open>Object.prototype\<close>
  has that inherited member as its spent value; credit transactions never contribute.
\<close>

theorem spent_by_category_whole_file:
  assumes "prepareData True clk csvContent seed = Inr seed'"
  shows "\<exists>txs. parseCsvToTransactions clk csvContent = Inr txs
           \<and> map seed_spent (budgets seed') =
               map (\<lambda>b. if budget_key (seed_category_id b) \<in> set object_prototype_names
                        then Inherited (budget_key (seed_category_id b))
                        else Num (or0 (foldl (\<lambda>acc x. Some (js_add (or0 acc) (js_abs x))) None
                              (map amount
                                 (filter (\<lambda>t. transaction_type t = Debit
                                               \<and> cat_truthy (category_id t)
                                               \<and> property_key (category_id t)
                                                   = budget_key (seed_category_id b))
                                    txs)))))
                   (budgets seed)
           \<and> list_all (\<lambda>b. case seed_category_id b of
                               CategoryId c \<Rightarrow> True
                             | _ \<Rightarrow> seed_spent b = Num (Fin 0 0))
                 (budgets seed')"
proof -
  from prepareData_budgets [OF assms] obtain txs
    where txs: "parseCsvToTransactions clk csvContent = Inr txs"
      and b: "budgets seed' = map (update_budget (spendingByCategory txs)) (budgets seed)"
    by blast
  have inh: "value_or0 (obj_get (spendingByCategory txs) k) = Inherited k"
    if "k \<in> set object_prototype_names" for k
    using that parsed_not_own [OF txs, of k] by (simp add: obj_get_def)
  have none: "value_or0 (obj_get (spendingByCategory txs) k) = Num (Fin 0 0)"
    if "k = ''undefined'' \<or> k = ''null''" for k
  proof -
    from that have "k \<notin> set object_prototype_names"
      by (auto simp: object_prototype_names_def)
    with parsed_not_own [OF txs, of k] that show ?thesis
      by (simp add: obj_get_def)
  qed
  have "list_all (\<lambda>b. case seed_category_id b of CategoryId c \<Rightarrow> True
                      | _ \<Rightarrow> seed_spent b = Num (Fin 0 0)) (budgets seed')"
    by (simp add: b list_all_iff update_budget_fields budget_key_def none
        split: json_category.splits)
  moreover have "map seed_spent (budgets seed') =
               map (\<lambda>b. if budget_key (seed_category_id b) \<in> set object_prototype_names
                        then Inherited (budget_key (seed_category_id b))
                        else Num (or0 (foldl (\<lambda>acc x. Some (js_add (or0 acc) (js_abs x))) None
                              (map amount
                                 (filter (\<lambda>t. transaction_type t = Debit
                                               \<and> cat_truthy (category_id t)
                                               \<and> property_key (category_id t)
                                                   = budget_key (seed_category_id b))
                                    txs)))))
                   (budgets seed)"
    by (simp add: b update_budget_fields comp_def inh spendingByCategory_key)
  ultimately show ?thesis using txs by blast
qed

theorem spent_by_category_whole_file_witness:
  "(\<exists>seed'. prepareData True (example_clock 0) rounding_csv rounding_seed = Inr seed'
      \<and> map seed_spent (budgets seed') = [Num (parseFloat ''6.65''), Inherited ''toString'']
      \<and> (\<exists>txs. parseCsvToTransactions (example_clock 0) rounding_csv = Inr txs
           \<and> map seed_spent (budgets seed') =
               map (\<lambda>b. if budget_key (seed_category_id b) \<in> set object_prototype_names
                        then Inherited (budget_key (seed_category_id b))
                        else Num (or0 (foldl (\<lambda>acc x. Some (js_add (or0 acc) (js_abs x))) None
                              (map amount
                                 (filter (\<lambda>t. transaction_type t = Debit
                                               \<and> cat_truthy (category_id t)
                                               \<and> property_key (category_id t)
                                                   = budget_key (seed_category_id b))
                                    txs)))))
                   (budgets rounding_seed)
           \<and> list_all (\<lambda>b. case seed_category_id b of
                               CategoryId c \<Rightarrow> True
                             | _ \<Rightarrow> seed_spent b = Num (Fin 0 0))
                 (budgets seed')))"
proof -
  obtain seed' where s: "prepareData True (example_clock 0) rounding_csv rounding_seed = Inr seed'"
    by (simp add: prepareData_def rounding_parsed)
  have "map_sum id (\<lambda>sd. map seed_spent (budgets sd))
          (prepareData True (example_clock 0) rounding_csv rounding_seed)
        = Inr [Num (parseFloat ''6.65''), Inherited ''toString'']"
    by (simp add: rounding_parsed rounding_seed_def prepare_eval parse_eval round_eval)
  with s have c: "map seed_spent (budgets seed')
                  = [Num (parseFloat ''6.65''), Inherited ''toString'']"
    by simp
  show ?thesis
    by (rule exI [of _ seed']) (intro conjI s c spent_by_category_whole_file [OF s])
qed


section \<open>The result of an import\<close>


lemma parse_line_cases:
  "(\<exists>t. parse_line clk i line = Inr t) \<or> parse_line clk i line = Inl TypeError"
  by (auto simp: parse_line_def Let_def split: option.splits)






end
